theory Spec2Isabelle
  imports Main
begin

section \<open>Values shared by the stream variants\<close>

text \<open>
  Content identifiers, raw bytes, decoded records and signing keys are handled by the
  libraries the ingester calls; the ingester itself only compares, stores and forwards
  them. They are modelled by their canonical string form: equality of two \<open>CID\<close>s is
  what \<^verbatim>\<open>CID.equals\<close> decides.
\<close>

type_synonym CID = string
type_synonym bytes = string
type_synonym lexrec = string
type_synonym signing_key = string
type_synonym json = string

text \<open>
  A thrown JavaScript value. The code distinguishes thrown values in two ways only:
  \<^verbatim>\<open>err instanceof RepoVerificationError\<close> (in \<^verbatim>\<open>parseCommitAuthenticated\<close>) and
  \<^verbatim>\<open>err && err['name'] === 'AbortError'\<close> (in \<^verbatim>\<open>start\<close>). \<open>Error name message\<close> is any
  other thrown object, \<open>Nullish\<close> a thrown falsy value.
\<close>

datatype error =
    RepoVerificationError string
  | Error string string
  | Nullish

fun isRepoVerificationError :: "error \<Rightarrow> bool" where
  "isRepoVerificationError (RepoVerificationError m) = True"
| "isRepoVerificationError (Error n m) = False"
| "isRepoVerificationError Nullish = False"

text \<open>\<^verbatim>\<open>err && err['name'] === 'AbortError'\<close>; a \<^verbatim>\<open>RepoVerificationError\<close> keeps the
  default name \<^verbatim>\<open>Error\<close>.\<close>

fun isAbortError :: "error \<Rightarrow> bool" where
  "isAbortError (Error n m) = (n = ''AbortError'')"
| "isAbortError (RepoVerificationError m) = False"
| "isAbortError Nullish = False"

section \<open>Envelopes of the repository event stream\<close>

record RepoOp =
  action :: string
  path :: string
  cid :: "CID option"

record Commit =
  seq :: int
  repo :: string
  commit :: CID
  rev :: string
  time :: string
  blocks :: bytes
  ops :: "RepoOp list"

text \<open>The \<^verbatim>\<open>status\<close> field of an account envelope is optional: \<open>None\<close> is the absent
  field, \<open>Some s\<close> a field holding the string \<open>s\<close>.\<close>

record Account =
  acc_seq :: int
  acc_did :: string
  acc_time :: string
  active :: bool
  status :: "string option"

record Identity =
  id_seq :: int
  id_did :: string
  id_time :: string

record Sync =
  sync_seq :: int
  sync_did :: string
  sync_time :: string
  sync_rev :: string
  sync_blocks :: bytes

datatype RepoEvent =
    IsCommit Commit
  | IsAccount Account
  | IsIdentity Identity
  | IsSync Sync
  | IsInfo string

section \<open>Normalized events\<close>

record AtUri =
  host :: string
  collection :: string
  rkey :: string

text \<open>A commit event: the \<^verbatim>\<open>CommitMeta\<close> fields, the \<^verbatim>\<open>event\<close> tag, and for
  \<^verbatim>\<open>create\<close>/\<^verbatim>\<open>update\<close> the content id and the decoded record.\<close>

record CommitEvt =
  evt_seq :: int
  evt_time :: string
  evt_commit :: CID
  evt_blocks :: "(CID \<times> bytes) list"
  evt_rev :: string
  evt_uri :: AtUri
  evt_did :: string
  evt_collection :: string
  evt_rkey :: string
  event :: string
  evt_cid :: "CID option"
  evt_record :: "lexrec option"

record AccountEvt =
  ae_seq :: int
  ae_time :: string
  ae_did :: string
  ae_active :: bool
  ae_status :: "string option"

type_synonym diddoc = string

record IdentityEvt =
  ie_seq :: int
  ie_time :: string
  ie_did :: string
  ie_handle :: "string option"
  ie_didDocument :: "diddoc option"

record SyncEvt =
  se_seq :: int
  se_time :: string
  se_did :: string
  se_cid :: CID
  se_rev :: string
  se_blocks :: "(CID \<times> bytes) list"

datatype Event =
    CommitEvent CommitEvt
  | AccountEvent AccountEvt
  | IdentityEvent IdentityEvt
  | SyncEvent SyncEvt

section \<open>Envelopes and events of the Jetstream variant\<close>

record JetstreamCommit =
  js_rev :: string
  js_operation :: string
  js_collection :: string
  js_rkey :: string
  js_record :: json
  js_cid :: string

record JetstreamEventKindCommit =
  jet_did :: string
  jet_time_us :: int
  jet_commit :: JetstreamCommit

text \<open>The parsed JSON document of one frame, by its \<^verbatim>\<open>kind\<close>; \<open>KindOther\<close> is a
  document of any other kind.\<close>

datatype JetstreamEventKind =
    KindCommit JetstreamEventKindCommit
  | KindAccount string int Account
  | KindIdentity string int Identity
  | KindOther string int

record JetstreamCommitEvt =
  je_time_us :: int
  je_time :: string
  je_rev :: string
  je_uri :: AtUri
  je_did :: string
  je_collection :: string
  je_rkey :: string
  je_event :: string
  je_cid :: "CID option"
  je_record :: "lexrec option"

datatype JetstreamEvent =
    JetstreamCommitEvent JetstreamCommitEvt
  | JetstreamAccountEvent AccountEvt int
  | JetstreamIdentityEvent IdentityEvt int

section \<open>Account envelopes\<close>

definition isValidStatus :: "string \<Rightarrow> bool" where
  "isValidStatus str =
     (str \<in> set [''takendown'', ''suspended'', ''deleted'', ''deactivated''])"

text \<open>
  \<^verbatim>\<open>if (evt.status && !isValidStatus(evt.status)) return\<close>: the first conjunct is
  JavaScript truthiness of an optional string, so it is false for the absent field
  and for the empty string.
\<close>

definition truthy :: "string option \<Rightarrow> bool" where
  "truthy s = (case s of None \<Rightarrow> False | Some str \<Rightarrow> str \<noteq> [])"

definition parseAccount :: "Account \<Rightarrow> AccountEvt option" where
  "parseAccount evt =
     (if truthy (status evt) \<and>
         (case status evt of None \<Rightarrow> False | Some str \<Rightarrow> \<not> isValidStatus str)
      then None
      else Some \<lparr> ae_seq = acc_seq evt, ae_time = acc_time evt, ae_did = acc_did evt,
                  ae_active = active evt, ae_status = status evt \<rparr>)"

section \<open>The filter over collection and repository\<close>

text \<open>
  The functions of the libraries the ingester calls: they are not part of the
  repository, so the model takes them as parameters. A function that can throw
  returns a sum, \<open>Inl\<close> the thrown value.
\<close>

record RecordCidClaim =
  claim_collection :: string
  claim_rkey :: string
  claim_cid :: "CID option"

record collab =
  parseDataKey :: "string \<Rightarrow> error + (string \<times> string)"
  formatDataKey :: "string \<Rightarrow> string \<Rightarrow> string"
  resolveAtprotoKey :: "string \<Rightarrow> bool \<Rightarrow> error + signing_key"
  verifyProofs :: "bytes \<Rightarrow> RecordCidClaim list \<Rightarrow> string \<Rightarrow> signing_key
                    \<Rightarrow> error + RecordCidClaim list"
  readCar :: "bytes \<Rightarrow> error + (CID \<times> bytes) list"
  readCarWithRoot :: "bytes \<Rightarrow> error + (CID \<times> (CID \<times> bytes) list)"
  cborToLexRecord :: "bytes \<Rightarrow> error + lexrec"
  AtUri_make :: "string \<Rightarrow> string \<Rightarrow> error + AtUri"
  did_resolve :: "string \<Rightarrow> error + diddoc option"
  parseToAtprotoDocument :: "diddoc \<Rightarrow> error + string option"
  handle_resolve :: "string \<Rightarrow> error + string option"
  isoOfMicros :: "int \<Rightarrow> error + string"
  CID_parse :: "string \<Rightarrow> error + CID"
  ipldToLex :: "json \<Rightarrow> error + lexrec"
  is_map :: "lexrec \<Rightarrow> bool"

text \<open>The test applied to one operation, once its collection is known.\<close>

definition passesFilter :: "string list \<Rightarrow> string list \<Rightarrow> string \<Rightarrow> string \<Rightarrow> bool" where
  "passesFilter filterCollections filterDids coll did =
     ((length filterCollections = 0 \<or> coll \<in> set filterCollections) \<and>
      (length filterDids = 0 \<or> did \<in> set filterDids))"

text \<open>
  \<^verbatim>\<open>evt.ops.filter(...)\<close> with a callback that calls \<^verbatim>\<open>parseDataKey\<close> on every
  operation before looking at the two lists: a path that \<^verbatim>\<open>parseDataKey\<close> rejects
  makes the whole filter throw. The guard \<^verbatim>\<open>if (!filterCollections) return evt.ops\<close>
  never fires for an array (an empty array is truthy), and both call sites pass an
  array.
\<close>

fun filterOps :: "collab \<Rightarrow> string \<Rightarrow> string list \<Rightarrow> string list \<Rightarrow> RepoOp list
                    \<Rightarrow> error + RepoOp list" where
  "filterOps env did filterCollections filterDids [] = Inr []"
| "filterOps env did filterCollections filterDids (op # rest) =
     (case parseDataKey env (path op) of
        Inl e \<Rightarrow> Inl e
      | Inr (coll, rk) \<Rightarrow>
          (case filterOps env did filterCollections filterDids rest of
             Inl e \<Rightarrow> Inl e
           | Inr kept \<Rightarrow>
               Inr (if passesFilter filterCollections filterDids coll did
                    then op # kept else kept)))"

definition maybeFilterOps :: "collab \<Rightarrow> Commit \<Rightarrow> string list \<Rightarrow> string list
                                \<Rightarrow> error + RepoOp list" where
  "maybeFilterOps env evt filterCollections filterDids =
     filterOps env (repo evt) filterCollections filterDids (ops evt)"

text \<open>Whether one operation passes the filter: its path parses and its collection
  and repository pass \<open>passesFilter\<close>.\<close>

definition opPasses :: "collab \<Rightarrow> string list \<Rightarrow> string list \<Rightarrow> string \<Rightarrow> RepoOp \<Rightarrow> bool" where
  "opPasses env filterCollections filterDids did op =
     (case parseDataKey env (path op) of
        Inl e \<Rightarrow> False
      | Inr (coll, rk) \<Rightarrow> passesFilter filterCollections filterDids coll did)"

section \<open>The unauthenticated commit path of the Jetstream variant\<close>

text \<open>
  \<^verbatim>\<open>formatCommitEvt\<close>: the metadata is built first (the timestamp conversion and
  \<^verbatim>\<open>AtUri.make\<close> can throw), then the operation decides. \<open>Inr None\<close> is the
  returned \<^verbatim>\<open>null\<close>.
\<close>

definition formatCommitEvt :: "collab \<Rightarrow> JetstreamEventKindCommit
                                 \<Rightarrow> error + JetstreamCommitEvt option" where
  "formatCommitEvt env evt =
     (let c = jet_commit evt in
      case isoOfMicros env (jet_time_us evt) of
        Inl e \<Rightarrow> Inl e
      | Inr t \<Rightarrow>
      (case AtUri_make env (jet_did evt) (js_collection c @ ''/'' @ js_rkey c) of
        Inl e \<Rightarrow> Inl e
      | Inr uri \<Rightarrow>
          (let meta = \<lparr> je_time_us = jet_time_us evt, je_time = t, je_rev = js_rev c,
                         je_uri = uri, je_did = jet_did evt,
                         je_collection = js_collection c, je_rkey = js_rkey c,
                         je_event = js_operation c, je_cid = None, je_record = None \<rparr>
           in if js_operation c = ''create'' \<or> js_operation c = ''update'' then
                (case CID_parse env (js_cid c) of
                   Inl e \<Rightarrow> Inl e
                 | Inr parsed \<Rightarrow>
                     (case ipldToLex env (js_record c) of
                        Inl e \<Rightarrow> Inl e
                      | Inr r \<Rightarrow>
                          if \<not> is_map env r
                          then Inl (Error ''Error'' ''lexicon records be a json object'')
                          else Inr (Some (meta\<lparr> je_cid := Some parsed,
                                                  je_record := Some r \<rparr>))))
              else if js_operation c = ''delete'' then
                Inr (Some (meta\<lparr> je_event := ''delete'' \<rparr>))
              else Inr None)))"

definition parseJetstreamKindCommitUnauthenticated ::
  "collab \<Rightarrow> JetstreamEventKindCommit \<Rightarrow> string list \<Rightarrow> string list
     \<Rightarrow> error + JetstreamCommitEvt option" where
  "parseJetstreamKindCommitUnauthenticated env evt filterCollections filterDids =
     (if (length filterCollections = 0
            \<or> js_collection (jet_commit evt) \<in> set filterCollections) \<and>
         (length filterDids = 0 \<or> jet_did evt \<in> set filterDids)
      then formatCommitEvt env evt
      else Inr None)"

section \<open>Query-parameter encoding\<close>

text \<open>
  The values a parameter object can hold, by what \<^verbatim>\<open>typeof\<close>, \<^verbatim>\<open>instanceof Date\<close>
  and \<^verbatim>\<open>Array.isArray\<close> tell apart. Numbers are the integers (the parameters of
  the subscriptions are cursors); a \<^verbatim>\<open>Date\<close> holds its time value or is invalid;
  \<open>VObject\<close> is any object that is neither a date nor an array.
\<close>

datatype date = Date int | InvalidDate

datatype jsvalue =
    VString string
  | VNumber int
  | VBoolean bool
  | VUndefined
  | VNull
  | VDate date
  | VArray "jsvalue list"
  | VObject
  | VFunction
  | VSymbol
  | VBigInt int

text \<open>What the JavaScript runtime provides: \<^verbatim>\<open>Number.prototype.toString\<close>,
  \<^verbatim>\<open>Date.prototype.toISOString\<close> on a valid date, and the percent-encoding that
  \<^verbatim>\<open>URLSearchParams.toString\<close> applies to names and values.\<close>

record jsrt =
  numberToString :: "int \<Rightarrow> string"
  toISOString :: "int \<Rightarrow> string"
  formEncode :: "string \<Rightarrow> string"

text \<open>\<^verbatim>\<open>string | string[]\<close>\<close>

datatype encoded = One string | Many "string list"

fun typeof :: "jsvalue \<Rightarrow> string" where
  "typeof (VString s) = ''string''"
| "typeof (VNumber n) = ''number''"
| "typeof (VBoolean b) = ''boolean''"
| "typeof VUndefined = ''undefined''"
| "typeof VNull = ''object''"
| "typeof (VDate d) = ''object''"
| "typeof (VArray vs) = ''object''"
| "typeof VObject = ''object''"
| "typeof VFunction = ''function''"
| "typeof VSymbol = ''symbol''"
| "typeof (VBigInt n) = ''bigint''"

definition cannotEncode :: "jsvalue \<Rightarrow> error" where
  "cannotEncode v = Error ''Error'' (''Cannot encode '' @ typeof v @ ''s into query params'')"

text \<open>
  \<^verbatim>\<open>encodeQueryParam\<close>, the same text in the Firehose and the Jetstream module.
  \<open>flatMapEncode\<close> is \<^verbatim>\<open>value.flatMap(encodeQueryParam)\<close>: the elements are encoded in
  order, an element's array is spliced in, and the first element that throws ends the
  call. \<^verbatim>\<open>toISOString\<close> throws a \<^verbatim>\<open>RangeError\<close> on an invalid date.
\<close>

fun encodeQueryParam :: "jsrt \<Rightarrow> jsvalue \<Rightarrow> error + encoded"
  and flatMapEncode :: "jsrt \<Rightarrow> jsvalue list \<Rightarrow> error + string list" where
  "encodeQueryParam rt (VString s) = Inr (One s)"
| "encodeQueryParam rt (VNumber n) = Inr (One (numberToString rt n))"
| "encodeQueryParam rt (VBoolean b) = Inr (One (if b then ''true'' else ''false''))"
| "encodeQueryParam rt VUndefined = Inr (One '''')"
| "encodeQueryParam rt (VDate d) =
     (case d of
        Date t \<Rightarrow> Inr (One (toISOString rt t))
      | InvalidDate \<Rightarrow> Inl (Error ''RangeError'' ''Invalid time value''))"
| "encodeQueryParam rt (VArray vs) =
     (case flatMapEncode rt vs of Inl e \<Rightarrow> Inl e | Inr ss \<Rightarrow> Inr (Many ss))"
| "encodeQueryParam rt VNull = Inr (One '''')"
| "encodeQueryParam rt VObject = Inl (cannotEncode VObject)"
| "encodeQueryParam rt VFunction = Inl (cannotEncode VFunction)"
| "encodeQueryParam rt VSymbol = Inl (cannotEncode VSymbol)"
| "encodeQueryParam rt (VBigInt n) = Inl (cannotEncode (VBigInt n))"
| "flatMapEncode rt [] = Inr []"
| "flatMapEncode rt (v # vs) =
     (case encodeQueryParam rt v of
        Inl e \<Rightarrow> Inl e
      | Inr enc \<Rightarrow>
          (case flatMapEncode rt vs of
             Inl e \<Rightarrow> Inl e
           | Inr rest \<Rightarrow> Inr ((case enc of One s \<Rightarrow> [s] | Many ss \<Rightarrow> ss) @ rest)))"

text \<open>
  \<^verbatim>\<open>URLSearchParams\<close> is an ordered list of name-value pairs. \<^verbatim>\<open>append\<close> adds a pair
  at the end; \<^verbatim>\<open>set\<close> overwrites the first pair of that name and removes the others,
  or appends when there is none; \<^verbatim>\<open>toString\<close> joins the encoded pairs with \<^verbatim>\<open>&\<close>.
\<close>

type_synonym URLSearchParams = "(string \<times> string) list"

definition params_append :: "URLSearchParams \<Rightarrow> string \<Rightarrow> string \<Rightarrow> URLSearchParams" where
  "params_append ps k v = ps @ [(k, v)]"

fun params_set :: "URLSearchParams \<Rightarrow> string \<Rightarrow> string \<Rightarrow> URLSearchParams" where
  "params_set [] k v = [(k, v)]"
| "params_set ((k', v') # ps) k v =
     (if k' = k then (k, v) # filter (\<lambda>p. fst p \<noteq> k) ps
      else (k', v') # params_set ps k v)"

fun params_toString :: "jsrt \<Rightarrow> URLSearchParams \<Rightarrow> string" where
  "params_toString rt [] = ''''"
| "params_toString rt [(k, v)] = formEncode rt k @ ''='' @ formEncode rt v"
| "params_toString rt ((k, v) # p # ps) =
     formEncode rt k @ ''='' @ formEncode rt v @ ''&'' @ params_toString rt (p # ps)"

text \<open>
  \<^verbatim>\<open>encodeQueryParams\<close> of the Firehose module. The parameter object is given by its
  \<^verbatim>\<open>Object.entries\<close>; \<open>encodeEntries\<close> is the \<^verbatim>\<open>forEach\<close> over them, threading the
  \<^verbatim>\<open>URLSearchParams\<close> under construction.
\<close>

fun encodeEntries :: "jsrt \<Rightarrow> URLSearchParams \<Rightarrow> (string \<times> jsvalue) list
                        \<Rightarrow> error + URLSearchParams" where
  "encodeEntries rt params [] = Inr params"
| "encodeEntries rt params ((key, v) # rest) =
     (case encodeQueryParam rt v of
        Inl e \<Rightarrow> Inl e
      | Inr (Many encs) \<Rightarrow>
          encodeEntries rt (foldl (\<lambda>ps enc. params_append ps key enc) params encs) rest
      | Inr (One enc) \<Rightarrow> encodeEntries rt (params_set params key enc) rest)"

definition encodeQueryParams :: "jsrt \<Rightarrow> (string \<times> jsvalue) list \<Rightarrow> error + string" where
  "encodeQueryParams rt obj =
     (case encodeEntries rt [] obj of
        Inl e \<Rightarrow> Inl e
      | Inr params \<Rightarrow> Inr (params_toString rt params))"

text \<open>
  \<^verbatim>\<open>encodeQueryParams\<close> of the Jetstream module: the same, but a single encoded
  string is set only when it is truthy, \<^verbatim>\<open>if (encoded) params.set(key, encoded)\<close>.
\<close>

fun encodeEntries_jetstream :: "jsrt \<Rightarrow> URLSearchParams \<Rightarrow> (string \<times> jsvalue) list
                                  \<Rightarrow> error + URLSearchParams" where
  "encodeEntries_jetstream rt params [] = Inr params"
| "encodeEntries_jetstream rt params ((key, v) # rest) =
     (case encodeQueryParam rt v of
        Inl e \<Rightarrow> Inl e
      | Inr (Many encs) \<Rightarrow>
          encodeEntries_jetstream rt
            (foldl (\<lambda>ps enc. params_append ps key enc) params encs) rest
      | Inr (One enc) \<Rightarrow>
          encodeEntries_jetstream rt
            (if enc \<noteq> [] then params_set params key enc else params) rest)"

definition encodeQueryParams_jetstream ::
  "jsrt \<Rightarrow> (string \<times> jsvalue) list \<Rightarrow> error + string" where
  "encodeQueryParams_jetstream rt obj =
     (case encodeEntries_jetstream rt [] obj of
        Inl e \<Rightarrow> Inl e
      | Inr params \<Rightarrow> Inr (params_toString rt params))"

section \<open>Envelopes and events of the Turbostream variant\<close>

text \<open>A Turbostream document wraps a Jetstream commit message, whose \<^verbatim>\<open>kind\<close> is
  kept as received, and carries hydrated metadata, which is passed through.\<close>

record TurbostreamEventKind =
  ts_at_uri :: string
  ts_did :: string
  ts_time_us :: "int option"
  ts_message_kind :: string
  ts_message :: JetstreamEventKindCommit
  ts_hydrated_metadata :: json

record TurbostreamCommitEvt = JetstreamCommitEvt +
  hydrated_metadata :: json

section \<open>Reported errors and observable effects\<close>

text \<open>The value handed to \<^verbatim>\<open>validate\<close> in the Firehose subscription: the message
  body with its \<^verbatim>\<open>$type\<close> set from the header, or undefined.\<close>

type_synonym clone = "(string option \<times> json) option"

text \<open>The error objects the classes pass to \<^verbatim>\<open>onError\<close>.\<close>

datatype reported =
    FirehoseValidationError error clone
  | FirehoseParseError error RepoEvent
  | FirehoseSubscriptionError error
  | FirehoseHandlerError error Event
  | JetstreamParseError error JetstreamEventKind
  | JetstreamSubscriptionError error
  | JetstreamHandlerError error JetstreamEvent
  | JetstreamDecompressError error
  | TurbostreamParseError error TurbostreamEventKind
  | TurbostreamSubscriptionError error
  | TurbostreamHandlerError error TurbostreamCommitEvt
  | TurbostreamDecompressError error

text \<open>
  What a run does to the outside, in program order: calls of the callbacks
  \<^verbatim>\<open>onError\<close>, \<^verbatim>\<open>onInfo\<close> and \<^verbatim>\<open>handleEvent\<close> (both callbacks that report are taken
  not to throw), work handed to the runner, the reconnect delay, invocations of the
  cursor source, key resolution and proof verification, and the resolution of the
  deferred that \<^verbatim>\<open>destroy\<close> awaits.
\<close>

datatype effect =
    OnError reported
  | OnInfo string
  | HandleEvent Event
  | HandleJetstreamEvent JetstreamEvent
  | HandleTurbostreamEvent TurbostreamCommitEvt
  | TrackEvent string int RepoEvent
  | TrackJetstreamEvent string int JetstreamEventKind
  | Wait int
  | GetCursor nat
  | ResolveAtprotoKey string bool
  | VerifyProofs signing_key
  | DestroyDeferResolve

section \<open>The commit paths of the Firehose\<close>

text \<open>
  One iteration of the loop of \<^verbatim>\<open>formatCommitOps\<close>: \<open>Inr None\<close> is an iteration that
  pushes nothing (a \<^verbatim>\<open>continue\<close>, or an action that is none of the three), \<open>Inl\<close> a
  throw of \<^verbatim>\<open>AtUri.make\<close> or \<^verbatim>\<open>cborToLexRecord\<close>.
\<close>

definition formatCommitOp :: "collab \<Rightarrow> Commit \<Rightarrow> (CID \<times> bytes) list \<Rightarrow> RepoOp
                                \<Rightarrow> error + CommitEvt option" where
  "formatCommitOp env evt car op =
     (case AtUri_make env (repo evt) (path op) of
        Inl e \<Rightarrow> Inl e
      | Inr uri \<Rightarrow>
          (let meta = \<lparr> evt_seq = seq evt, evt_time = time evt, evt_commit = commit evt,
                         evt_blocks = car, evt_rev = rev evt, evt_uri = uri,
                         evt_did = host uri, evt_collection = collection uri,
                         evt_rkey = rkey uri, event = action op,
                         evt_cid = None, evt_record = None \<rparr>
           in if action op = ''create'' \<or> action op = ''update'' then
                (case cid op of
                   None \<Rightarrow> Inr None
                 | Some c \<Rightarrow>
                     (case map_of car c of
                        None \<Rightarrow> Inr None
                      | Some recordBytes \<Rightarrow>
                          (case cborToLexRecord env recordBytes of
                             Inl e \<Rightarrow> Inl e
                           | Inr r \<Rightarrow>
                               Inr (Some (meta\<lparr> evt_cid := Some c,
                                                 evt_record := Some r \<rparr>)))))
              else if action op = ''delete'' then
                Inr (Some (meta\<lparr> event := ''delete'' \<rparr>))
              else Inr None))"

fun formatCommitOps_loop :: "collab \<Rightarrow> Commit \<Rightarrow> (CID \<times> bytes) list \<Rightarrow> RepoOp list
                               \<Rightarrow> error + CommitEvt list" where
  "formatCommitOps_loop env evt car [] = Inr []"
| "formatCommitOps_loop env evt car (op # rest) =
     (case formatCommitOp env evt car op of
        Inl e \<Rightarrow> Inl e
      | Inr pushed \<Rightarrow>
          (case formatCommitOps_loop env evt car rest of
             Inl e \<Rightarrow> Inl e
           | Inr evts \<Rightarrow> Inr (case pushed of None \<Rightarrow> evts | Some e \<Rightarrow> e # evts)))"

definition formatCommitOps :: "collab \<Rightarrow> Commit \<Rightarrow> RepoOp list \<Rightarrow> error + CommitEvt list" where
  "formatCommitOps env evt os =
     (case readCar env (blocks evt) of
        Inl e \<Rightarrow> Inl e
      | Inr car \<Rightarrow> formatCommitOps_loop env evt car os)"

definition parseCommitUnauthenticated :: "collab \<Rightarrow> Commit \<Rightarrow> string list \<Rightarrow> string list
                                            \<Rightarrow> error + CommitEvt list" where
  "parseCommitUnauthenticated env evt filterCollections filterDids =
     (case maybeFilterOps env evt filterCollections filterDids of
        Inl e \<Rightarrow> Inl e
      | Inr os \<Rightarrow> formatCommitOps env evt os)"

text \<open>The claims handed to \<^verbatim>\<open>verifyProofs\<close>, one for each filtered operation.\<close>

fun claimsOf :: "collab \<Rightarrow> RepoOp list \<Rightarrow> error + RecordCidClaim list" where
  "claimsOf env [] = Inr []"
| "claimsOf env (op # rest) =
     (case parseDataKey env (path op) of
        Inl e \<Rightarrow> Inl e
      | Inr (coll, rk) \<Rightarrow>
          (case claimsOf env rest of
             Inl e \<Rightarrow> Inl e
           | Inr cs \<Rightarrow>
               Inr (\<lparr> claim_collection = coll, claim_rkey = rk,
                      claim_cid = (if action op = ''delete'' then None else cid op) \<rparr> # cs)))"

text \<open>
  \<^verbatim>\<open>verifiedCids\<close>: the object filled from \<^verbatim>\<open>results.verified\<close>, a later entry
  overwriting an earlier one of the same path. A path without entry reads
  \<^verbatim>\<open>undefined\<close> (\<open>None\<close>), a path verified absent reads \<^verbatim>\<open>null\<close> (\<open>Some None\<close>).
\<close>

definition verifiedCidsOf :: "collab \<Rightarrow> RecordCidClaim list \<Rightarrow> (string \<rightharpoonup> CID option)" where
  "verifiedCidsOf env verified =
     foldl (\<lambda>m c. m(formatDataKey env (claim_collection c) (claim_rkey c) \<mapsto> claim_cid c))
       Map.empty verified"

text \<open>The test of the final \<^verbatim>\<open>ops.filter\<close> of \<^verbatim>\<open>parseCommitAuthenticated\<close>.\<close>

definition isVerifiedOp :: "(string \<rightharpoonup> CID option) \<Rightarrow> RepoOp \<Rightarrow> bool" where
  "isVerifiedOp verifiedCids op =
     (if action op = ''delete'' then verifiedCids (path op) = Some None
      else (case cid op of
              None \<Rightarrow> False
            | Some c \<Rightarrow> verifiedCids (path op) = Some (Some c)))"

text \<open>
  \<^verbatim>\<open>parseCommitAuthenticated\<close>. The result comes with the calls made to the key
  resolver and to the proof verification, in order. The only recursive call is the
  retry, made with \<^verbatim>\<open>forceKeyRefresh = true\<close> from a call in which it was false.
\<close>

function parseCommitAuthenticated ::
  "collab \<Rightarrow> Commit \<Rightarrow> string list \<Rightarrow> string list \<Rightarrow> bool
     \<Rightarrow> effect list \<times> (error + CommitEvt list)" where
  "parseCommitAuthenticated env evt filterCollections filterDids forceKeyRefresh =
     (let did = repo evt in
      case maybeFilterOps env evt filterCollections filterDids of
        Inl e \<Rightarrow> ([], Inl e)
      | Inr os \<Rightarrow>
          if length os = 0 then ([], Inr [])
          else
            (case claimsOf env os of
               Inl e \<Rightarrow> ([], Inl e)
             | Inr claims \<Rightarrow>
                 (case resolveAtprotoKey env did forceKeyRefresh of
                    Inl e \<Rightarrow> ([ResolveAtprotoKey did forceKeyRefresh], Inl e)
                  | Inr key \<Rightarrow>
                      (case verifyProofs env (blocks evt) claims did key of
                         Inl err \<Rightarrow>
                           if isRepoVerificationError err \<and> \<not> forceKeyRefresh then
                             (let retry = parseCommitAuthenticated env evt
                                            filterCollections filterDids True
                              in ([ResolveAtprotoKey did forceKeyRefresh, VerifyProofs key]
                                    @ fst retry, snd retry))
                           else
                             ([ResolveAtprotoKey did forceKeyRefresh, VerifyProofs key],
                              Inl err)
                       | Inr verified \<Rightarrow>
                           (let verifiedCids = verifiedCidsOf env verified;
                                verifiedOps = filter (isVerifiedOp verifiedCids) os
                            in ([ResolveAtprotoKey did forceKeyRefresh, VerifyProofs key],
                                formatCommitOps env evt verifiedOps))))))"
  by pat_completeness auto
termination
  by (relation "measure (\<lambda>(env, evt, fc, fd, force). if force then 0 else 1)") auto

declare parseCommitAuthenticated.simps [simp del]

section \<open>The other envelopes of the Firehose\<close>

definition parseSync :: "collab \<Rightarrow> Sync \<Rightarrow> error + SyncEvt option" where
  "parseSync env evt =
     (case readCarWithRoot env (sync_blocks evt) of
        Inl e \<Rightarrow> Inl e
      | Inr (root, blks) \<Rightarrow>
          Inr (Some \<lparr> se_seq = sync_seq evt, se_time = sync_time evt, se_did = sync_did evt,
                      se_cid = root, se_rev = sync_rev evt, se_blocks = blks \<rparr>))"

text \<open>\<^verbatim>\<open>parseToAtprotoDocument\<close> can throw on a malformed document; \<^verbatim>\<open>if (!handle)\<close>
  holds for an absent and for an empty handle.\<close>

definition verifyHandle :: "collab \<Rightarrow> string \<Rightarrow> diddoc \<Rightarrow> error + string option" where
  "verifyHandle env did didDoc =
     (case parseToAtprotoDocument env didDoc of
        Inl e \<Rightarrow> Inl e
      | Inr None \<Rightarrow> Inr None
      | Inr (Some h) \<Rightarrow>
          if h = [] then Inr None
          else (case handle_resolve env h of
                  Inl e \<Rightarrow> Inl e
                | Inr res \<Rightarrow> Inr (if res = Some did then Some h else None)))"

definition parseIdentity :: "collab \<Rightarrow> Identity \<Rightarrow> bool \<Rightarrow> error + IdentityEvt option" where
  "parseIdentity env evt unauthenticated =
     (case did_resolve env (id_did evt) of
        Inl e \<Rightarrow> Inl e
      | Inr res \<Rightarrow>
          (case (case res of
                   None \<Rightarrow> Inr None
                 | Some doc \<Rightarrow>
                     if \<not> unauthenticated then verifyHandle env (id_did evt) doc
                     else Inr None) of
             Inl e \<Rightarrow> Inl e
           | Inr h \<Rightarrow>
               Inr (Some \<lparr> ie_seq = id_seq evt, ie_time = id_time evt, ie_did = id_did evt,
                           ie_handle = h, ie_didDocument = res \<rparr>)))"

text \<open>
  Condition (b) in the words of the specification: the content id claimed by a create
  or an update is the verified entry of its path, or the operation is a delete and the
  entry of its path is null. It is compared below with \<open>isVerifiedOp\<close>, the test the
  code applies.
\<close>

definition matchesVerified :: "(string \<rightharpoonup> CID option) \<Rightarrow> RepoOp \<Rightarrow> bool" where
  "matchesVerified verifiedCids op =
     (((action op = ''create'' \<or> action op = ''update'') \<and>
       (case cid op of
          None \<Rightarrow> False
        | Some c \<Rightarrow> verifiedCids (path op) = Some (Some c))) \<or>
      (action op = ''delete'' \<and> verifiedCids (path op) = Some None))"

text \<open>
  What \<^verbatim>\<open>verifyProofs\<close> guarantees about the claims it returns as verified. It
  reads the record of every claim from the block set it is given and throws when the
  block is not there, so the content id of a verified claim has its block in that set,
  which is the set \<^verbatim>\<open>formatCommitOps\<close> reads (both read \<^verbatim>\<open>evt.blocks\<close>).
\<close>

definition verifiedBlocksPresent :: "(CID \<times> bytes) list \<Rightarrow> RecordCidClaim list \<Rightarrow> bool" where
  "verifiedBlocksPresent car verified =
     list_all (\<lambda>cl. case claim_cid cl of
                       None \<Rightarrow> True
                     | Some c \<Rightarrow> map_of car c \<noteq> None) verified"

text \<open>
  Whether an iteration of the loop of \<^verbatim>\<open>formatCommitOps\<close> pushes an event, as far as
  the operation and the block set decide it: a delete always does; a create or an
  update does when its content id is there and the block set holds a block for it.
\<close>

definition hasEvent :: "(CID \<times> bytes) list \<Rightarrow> RepoOp \<Rightarrow> bool" where
  "hasEvent car op =
     (action op = ''delete'' \<or>
      ((action op = ''create'' \<or> action op = ''update'') \<and>
       (case cid op of None \<Rightarrow> False | Some c \<Rightarrow> map_of car c \<noteq> None)))"

section \<open>Options\<close>

text \<open>
  The options object, shared by the three classes. The caller's handler is a function
  that may throw (\<open>Some\<close> the thrown value). A cursor source (the option
  \<^verbatim>\<open>getCursor\<close>, or the \<^verbatim>\<open>getCursor\<close> of a runner) answers differently from call to
  call: it is given by its answer to the \<open>n\<close>-th invocation. A runner is present when
  \<open>runner\<close> is \<open>Some\<close> of its cursor source.
\<close>

type_synonym cursor_source = "nat \<Rightarrow> int option"

record 'e IngesterOptions =
  service :: "string option"
  filterCollections :: "string list option"
  filterDids :: "string list option"
  unauthenticatedCommits :: bool
  unauthenticatedHandles :: bool
  excludeCommit :: bool
  excludeAccount :: bool
  excludeIdentity :: bool
  excludeSync :: bool
  compress :: "bool option"
  subscriptionReconnectDelay :: "int option"
  getCursor :: "cursor_source option"
  runner :: "cursor_source option"
  handleEvent :: "'e \<Rightarrow> error option"

section \<open>Parsing and dispatching one Firehose envelope\<close>

text \<open>\<^verbatim>\<open>parsed ? [parsed] : []\<close>\<close>

definition single :: "'a option \<Rightarrow> 'a list" where
  "single parsed = (case parsed of None \<Rightarrow> [] | Some x \<Rightarrow> [x])"

text \<open>
  The body of the \<^verbatim>\<open>try\<close> of \<^verbatim>\<open>Firehose.parseEvt\<close>: the first test of the chain
  that holds decides, and an envelope whose kind is excluded falls through to the
  empty list.
\<close>

definition parseEvt_try :: "collab \<Rightarrow> 'e IngesterOptions \<Rightarrow> RepoEvent
                              \<Rightarrow> effect list \<times> (error + Event list)" where
  "parseEvt_try env opts evt =
     (let fc = (case filterCollections opts of None \<Rightarrow> [] | Some l \<Rightarrow> l);
          fd = (case filterDids opts of None \<Rightarrow> [] | Some l \<Rightarrow> l)
      in case evt of
        IsCommit c \<Rightarrow>
          if \<not> excludeCommit opts then
            (if unauthenticatedCommits opts
             then ([], map_sum id (map CommitEvent) (parseCommitUnauthenticated env c fc fd))
             else (let r = parseCommitAuthenticated env c fc fd False
                   in (fst r, map_sum id (map CommitEvent) (snd r))))
          else ([], Inr [])
      | IsAccount a \<Rightarrow>
          if \<not> excludeAccount opts
          then ([], Inr (map AccountEvent (single (parseAccount a))))
          else ([], Inr [])
      | IsIdentity i \<Rightarrow>
          if \<not> excludeIdentity opts
          then ([], map_sum id (\<lambda>p. map IdentityEvent (single p))
                      (parseIdentity env i (unauthenticatedHandles opts)))
          else ([], Inr [])
      | IsSync s \<Rightarrow>
          if \<not> excludeSync opts
          then ([], map_sum id (\<lambda>p. map SyncEvent (single p)) (parseSync env s))
          else ([], Inr [])
      | IsInfo m \<Rightarrow> ([], Inr []))"

text \<open>\<^verbatim>\<open>Firehose.parseEvt\<close>: whatever the body throws is reported as a
  \<^verbatim>\<open>FirehoseParseError\<close> with the envelope, and the envelope yields no event.\<close>

definition parseEvt :: "collab \<Rightarrow> 'e IngesterOptions \<Rightarrow> RepoEvent
                          \<Rightarrow> effect list \<times> Event list" where
  "parseEvt env opts evt =
     (case parseEvt_try env opts evt of
        (effs, Inl err) \<Rightarrow> (effs @ [OnError (FirehoseParseError err evt)], [])
      | (effs, Inr parsed) \<Rightarrow> (effs, parsed))"

text \<open>The loop of \<^verbatim>\<open>Firehose.processEvt\<close> over the parsed events.\<close>

fun handleWrites :: "Event IngesterOptions \<Rightarrow> Event list \<Rightarrow> effect list" where
  "handleWrites opts [] = []"
| "handleWrites opts (write # rest) =
     (case handleEvent opts write of
        None \<Rightarrow> [HandleEvent write]
      | Some err \<Rightarrow> [HandleEvent write, OnError (FirehoseHandlerError err write)])
     @ handleWrites opts rest"

definition processEvt :: "collab \<Rightarrow> Event IngesterOptions \<Rightarrow> RepoEvent \<Rightarrow> effect list" where
  "processEvt env opts evt =
     (case parseEvt env opts evt of
        (effs, parsed) \<Rightarrow> effs @ handleWrites opts parsed)"

section \<open>Parsing and dispatching one Jetstream document\<close>

text \<open>The body of the \<^verbatim>\<open>try\<close> of \<^verbatim>\<open>Jetstream.parseEvt\<close>; \<open>Inr None\<close> is the returned
  \<^verbatim>\<open>null\<close>.\<close>

definition Jetstream_parseEvt_try :: "collab \<Rightarrow> 'e IngesterOptions \<Rightarrow> JetstreamEventKind
                                        \<Rightarrow> error + JetstreamEvent option" where
  "Jetstream_parseEvt_try env opts evt =
     (case evt of
        KindCommit c \<Rightarrow>
          if \<not> excludeCommit opts then
            map_sum id (map_option JetstreamCommitEvent)
              (parseJetstreamKindCommitUnauthenticated env c
                 (case filterCollections opts of None \<Rightarrow> [] | Some l \<Rightarrow> l)
                 (case filterDids opts of None \<Rightarrow> [] | Some l \<Rightarrow> l))
          else Inr None
      | KindAccount did time_us a \<Rightarrow>
          if \<not> excludeAccount opts
          then Inr (map_option (\<lambda>p. JetstreamAccountEvent p time_us) (parseAccount a))
          else Inr None
      | KindIdentity did time_us i \<Rightarrow>
          if \<not> excludeIdentity opts
          then map_sum id (map_option (\<lambda>p. JetstreamIdentityEvent p time_us))
                 (parseIdentity env i (unauthenticatedHandles opts))
          else Inr None
      | KindOther did time_us \<Rightarrow> Inr None)"

definition Jetstream_parseEvt :: "collab \<Rightarrow> 'e IngesterOptions \<Rightarrow> JetstreamEventKind
                                    \<Rightarrow> effect list \<times> JetstreamEvent option" where
  "Jetstream_parseEvt env opts evt =
     (case Jetstream_parseEvt_try env opts evt of
        Inl err \<Rightarrow> ([OnError (JetstreamParseError err evt)], None)
      | Inr parsed \<Rightarrow> ([], parsed))"

definition Jetstream_processEvt :: "collab \<Rightarrow> JetstreamEvent IngesterOptions
                                      \<Rightarrow> JetstreamEventKind \<Rightarrow> effect list" where
  "Jetstream_processEvt env opts evt =
     (case Jetstream_parseEvt env opts evt of
        (effs, None) \<Rightarrow> effs
      | (effs, Some parsed) \<Rightarrow>
          effs @
          (case handleEvent opts parsed of
             None \<Rightarrow> [HandleJetstreamEvent parsed]
           | Some err \<Rightarrow> [HandleJetstreamEvent parsed,
                            OnError (JetstreamHandlerError err parsed)]))"

section \<open>Parsing and dispatching one Turbostream document\<close>

text \<open>\<^verbatim>\<open>formatCommitEvt\<close> of the Turbostream module: as for Jetstream, on the wrapped
  message and the document's own \<^verbatim>\<open>did\<close>, with the hydrated metadata added.\<close>

definition Turbostream_formatCommitEvt :: "collab \<Rightarrow> TurbostreamEventKind
                                             \<Rightarrow> error + TurbostreamCommitEvt option" where
  "Turbostream_formatCommitEvt env evt =
     (let c = jet_commit (ts_message evt) in
      case isoOfMicros env (jet_time_us (ts_message evt)) of
        Inl e \<Rightarrow> Inl e
      | Inr t \<Rightarrow>
      (case AtUri_make env (ts_did evt) (js_collection c @ ''/'' @ js_rkey c) of
        Inl e \<Rightarrow> Inl e
      | Inr uri \<Rightarrow>
          (let meta = \<lparr> je_time_us = jet_time_us (ts_message evt), je_time = t,
                         je_rev = js_rev c, je_uri = uri, je_did = ts_did evt,
                         je_collection = js_collection c, je_rkey = js_rkey c,
                         je_event = js_operation c, je_cid = None, je_record = None,
                         hydrated_metadata = ts_hydrated_metadata evt \<rparr>
           in if js_operation c = ''create'' \<or> js_operation c = ''update'' then
                (case CID_parse env (js_cid c) of
                   Inl e \<Rightarrow> Inl e
                 | Inr parsed \<Rightarrow>
                     (case ipldToLex env (js_record c) of
                        Inl e \<Rightarrow> Inl e
                      | Inr r \<Rightarrow>
                          if \<not> is_map env r
                          then Inl (Error ''Error'' ''lexicon records be a json object'')
                          else Inr (Some (meta\<lparr> je_cid := Some parsed,
                                                  je_record := Some r \<rparr>))))
              else if js_operation c = ''delete'' then
                Inr (Some (meta\<lparr> je_event := ''delete'' \<rparr>))
              else Inr None)))"

definition Turbostream_parseEvt :: "collab \<Rightarrow> 'e IngesterOptions \<Rightarrow> TurbostreamEventKind
                                      \<Rightarrow> effect list \<times> TurbostreamCommitEvt option" where
  "Turbostream_parseEvt env opts evt =
     (case (if ts_message_kind evt = ''commit'' \<and> \<not> excludeCommit opts
            then Turbostream_formatCommitEvt env evt else Inr None) of
        Inl err \<Rightarrow> ([OnError (TurbostreamParseError err evt)], None)
      | Inr parsed \<Rightarrow> ([], parsed))"

definition Turbostream_processEvt :: "collab \<Rightarrow> TurbostreamCommitEvt IngesterOptions
                                        \<Rightarrow> TurbostreamEventKind \<Rightarrow> effect list" where
  "Turbostream_processEvt env opts evt =
     (case Turbostream_parseEvt env opts evt of
        (effs, None) \<Rightarrow> effs
      | (effs, Some parsed) \<Rightarrow>
          effs @
          (case handleEvent opts parsed of
             None \<Rightarrow> [HandleTurbostreamEvent parsed]
           | Some err \<Rightarrow> [HandleTurbostreamEvent parsed,
                            OnError (TurbostreamHandlerError err parsed)]))"

section \<open>The transport and the wire formats\<close>

text \<open>
  The transport (\<^verbatim>\<open>WebSocketKeepAlive\<close>) is not part of the repository. What it does
  during one iteration over a subscription is given as a script: it asks for the URL
  whenever it opens a connection (\<open>Connect\<close>), it delivers chunks (\<open>Chunk\<close>), and the
  iteration ends by throwing or by finishing. \<^verbatim>\<open>destroy\<close> aborts the signal handed to
  the transport, upon which the iteration throws an error named \<^verbatim>\<open>AbortError\<close>, and
  then awaits the deferred that \<^verbatim>\<open>start\<close> resolves. A script lists the iterations in
  the order in which \<^verbatim>\<open>start\<close> begins them.
\<close>

datatype 'c step = Connect | Chunk 'c

datatype ending = Throws error | Ends

type_synonym 'c session = "'c step list \<times> ending"

text \<open>A decoded Firehose frame: the \<^verbatim>\<open>t\<close> of its header and its body, either of
  which can be undefined.\<close>

record message =
  header_t :: "string option"
  body :: "json option"

text \<open>The decoders: \<^verbatim>\<open>ensureChunkIsMessage\<close>, \<^verbatim>\<open>lexicons.assertValidXrpcMessage\<close>,
  \<^verbatim>\<open>decompressUsingDict\<close>, and \<^verbatim>\<open>JSON.parse\<close> of a chunk read as a document of the
  Jetstream or of the Turbostream.\<close>

record wire =
  ensureChunkIsMessage :: "bytes \<Rightarrow> error + message"
  assertValidXrpcMessage :: "clone \<Rightarrow> error + RepoEvent"
  decompressUsingDict :: "bytes \<Rightarrow> bytes \<Rightarrow> error + bytes"
  JSON_parse :: "bytes \<Rightarrow> error + JetstreamEventKind"
  JSON_parse_turbostream :: "bytes \<Rightarrow> error + TurbostreamEventKind"

text \<open>How a run of \<^verbatim>\<open>start\<close> stands when the script is used up: it has returned, or
  it is still iterating, waiting for the transport.\<close>

datatype run = Returned | Pending

section \<open>The Firehose subscription and its supervisor\<close>

text \<open>\<^verbatim>\<open>this.opts.runner?.getCursor ?? this.opts.getCursor\<close>\<close>

definition cursorSource :: "'e IngesterOptions \<Rightarrow> cursor_source option" where
  "cursorSource opts = (case runner opts of Some g \<Rightarrow> Some g | None \<Rightarrow> getCursor opts)"

definition cursorValue :: "int option \<Rightarrow> jsvalue" where
  "cursorValue c = (case c of None \<Rightarrow> VUndefined | Some k \<Rightarrow> VNumber k)"

text \<open>
  \<^verbatim>\<open>getParams\<close> of the Firehose. The number threaded through is the number of
  invocations of the cursor source made so far; each call of \<^verbatim>\<open>getParams\<close> invokes
  the source anew.
\<close>

definition getParams :: "'e IngesterOptions \<Rightarrow> nat
                           \<Rightarrow> nat \<times> effect list \<times> (string \<times> jsvalue) list option" where
  "getParams opts n =
     (case cursorSource opts of
        None \<Rightarrow> (n, [], None)
      | Some getCursorFn \<Rightarrow>
          (Suc n, [GetCursor n], Some [(''cursor'', cursorValue (getCursorFn n))]))"

text \<open>\<^verbatim>\<open>getUrl\<close> of the Firehose subscription. A throw of \<^verbatim>\<open>encodeQueryParams\<close> goes
  to the transport, which called.\<close>

definition getUrl :: "jsrt \<Rightarrow> 'e IngesterOptions \<Rightarrow> nat
                        \<Rightarrow> nat \<times> effect list \<times> (error + string)" where
  "getUrl rt opts n =
     (case getParams opts n of
        (n', effs, params) \<Rightarrow>
          (case encodeQueryParams rt (case params of None \<Rightarrow> [] | Some p \<Rightarrow> p) of
             Inl e \<Rightarrow> (n', effs, Inl e)
           | Inr query \<Rightarrow>
               (let url = (case service opts of None \<Rightarrow> ''wss://bsky.network'' | Some s \<Rightarrow> s)
                            @ ''/xrpc/'' @ ''com.atproto.sync.subscribeRepos'' @ ''?'' @ query
                in (n', effs @ [OnInfo (''Firehose: '' @ url)], Inr url))))"

text \<open>The \<^verbatim>\<open>validate\<close> option built by the constructor.\<close>

definition validate :: "wire \<Rightarrow> clone \<Rightarrow> effect list \<times> RepoEvent option" where
  "validate w v =
     (case assertValidXrpcMessage w v of
        Inl err \<Rightarrow> ([OnError (FirehoseValidationError err v)], None)
      | Inr evt \<Rightarrow> ([], Some evt))"

text \<open>The body of the loop of the subscription's iterator, after
  \<^verbatim>\<open>ensureChunkIsMessage\<close>: what is validated and, if valid, yielded.\<close>

definition cloneOf :: "message \<Rightarrow> clone" where
  "cloneOf m =
     (case body m of
        None \<Rightarrow> None
      | Some b \<Rightarrow>
          Some (case header_t m of
                  None \<Rightarrow> None
                | Some t \<Rightarrow>
                    Some (if take 1 t = ''#''
                          then ''com.atproto.sync.subscribeRepos'' @ t else t),
                b))"

definition didAndSeqForEvt :: "RepoEvent \<Rightarrow> (string \<times> int) option" where
  "didAndSeqForEvt evt =
     (case evt of
        IsCommit c \<Rightarrow> Some (repo c, seq c)
      | IsAccount a \<Rightarrow> Some (acc_did a, acc_seq a)
      | IsIdentity i \<Rightarrow> Some (id_did i, id_seq i)
      | IsSync s \<Rightarrow> Some (sync_did s, sync_seq s)
      | IsInfo m \<Rightarrow> None)"

text \<open>The body of the loop of \<^verbatim>\<open>Firehose.start\<close>. With a runner the work is handed
  over, not awaited; without one the envelope is processed in place.\<close>

definition start_body :: "collab \<Rightarrow> Event IngesterOptions \<Rightarrow> RepoEvent \<Rightarrow> effect list" where
  "start_body env opts evt =
     (if runner opts \<noteq> None then
        (case didAndSeqForEvt evt of
           None \<Rightarrow> []
         | Some (did, sq) \<Rightarrow> [TrackEvent did sq evt])
      else processEvt env opts evt)"

text \<open>
  One iteration over the subscription, driven by the transport's steps: the effects,
  the number of cursor invocations afterwards, and the error thrown out of the
  iterator by \<^verbatim>\<open>ensureChunkIsMessage\<close>, if any (the steps after it are not reached).
\<close>

fun frames :: "wire \<Rightarrow> collab \<Rightarrow> jsrt \<Rightarrow> Event IngesterOptions \<Rightarrow> nat \<Rightarrow> bytes step list
                 \<Rightarrow> nat \<times> effect list \<times> error option" where
  "frames w env rt opts n [] = (n, [], None)"
| "frames w env rt opts n (Connect # rest) =
     (case getUrl rt opts n of
        (n', effs, url) \<Rightarrow>
          (case frames w env rt opts n' rest of
             (n'', effs', thrown) \<Rightarrow> (n'', effs @ effs', thrown)))"
| "frames w env rt opts n (Chunk chunk # rest) =
     (case ensureChunkIsMessage w chunk of
        Inl e \<Rightarrow> (n, [], Some e)
      | Inr m \<Rightarrow>
          (case validate w (cloneOf m) of
             (veffs, result) \<Rightarrow>
               (case frames w env rt opts n rest of
                  (n'', effs', thrown) \<Rightarrow>
                    (n'',
                     veffs @ (case result of None \<Rightarrow> [] | Some evt \<Rightarrow> start_body env opts evt)
                       @ effs',
                     thrown))))"

definition reconnectDelay :: "'e IngesterOptions \<Rightarrow> int" where
  "reconnectDelay opts = (case subscriptionReconnectDelay opts of None \<Rightarrow> 3000 | Some d \<Rightarrow> d)"

text \<open>
  \<^verbatim>\<open>Firehose.start\<close>, over a script of iterations. The recursive call is the
  \<^verbatim>\<open>return this.start()\<close> of the \<^verbatim>\<open>catch\<close>; it begins the next iteration of the script.
\<close>

fun start :: "wire \<Rightarrow> collab \<Rightarrow> jsrt \<Rightarrow> Event IngesterOptions \<Rightarrow> nat \<Rightarrow> bytes session list
                \<Rightarrow> effect list \<times> run" where
  "start w env rt opts n [] = ([], Pending)"
| "start w env rt opts n ((steps, ending) # later) =
     (case frames w env rt opts n steps of
        (n', effs, thrown) \<Rightarrow>
          (case (case thrown of Some e \<Rightarrow> Throws e | None \<Rightarrow> ending) of
             Ends \<Rightarrow> (effs, Returned)
           | Throws err \<Rightarrow>
               if isAbortError err then (effs @ [DestroyDeferResolve], Returned)
               else (case start w env rt opts n' later of
                       (effs', r) \<Rightarrow>
                         (effs @ [OnError (FirehoseSubscriptionError err),
                                  Wait (reconnectDelay opts)] @ effs', r))))"

section \<open>The Jetstream subscription and its supervisor\<close>

definition Jetstream_getParams :: "'e IngesterOptions \<Rightarrow> nat
                                     \<Rightarrow> nat \<times> effect list \<times> (string \<times> jsvalue) list" where
  "Jetstream_getParams opts n =
     (let wanted = (\<lambda>l. case l of None \<Rightarrow> VUndefined | Some xs \<Rightarrow> VArray (map VString xs));
          compressed = (case compress opts of None \<Rightarrow> VUndefined | Some b \<Rightarrow> VBoolean b)
      in case cursorSource opts of
        None \<Rightarrow>
          (n, [],
           [(''wantedCollections'', wanted (filterCollections opts)),
            (''wantedDids'', wanted (filterDids opts)),
            (''cursor'', VUndefined),
            (''compress'', compressed)])
      | Some getCursorFn \<Rightarrow>
          (Suc n, [GetCursor n],
           [(''wantedCollections'', wanted (filterCollections opts)),
            (''wantedDids'', wanted (filterDids opts)),
            (''cursor'', cursorValue (getCursorFn n)),
            (''compress'', compressed)]))"

definition Jetstream_getUrl :: "jsrt \<Rightarrow> 'e IngesterOptions \<Rightarrow> nat
                                  \<Rightarrow> nat \<times> effect list \<times> (error + string)" where
  "Jetstream_getUrl rt opts n =
     (case Jetstream_getParams opts n of
        (n', effs, params) \<Rightarrow>
          (case encodeQueryParams_jetstream rt params of
             Inl e \<Rightarrow> (n', effs, Inl e)
           | Inr query \<Rightarrow>
               (let url = (case service opts of
                             None \<Rightarrow> ''wss://jetstream1.us-east.bsky.network'' | Some s \<Rightarrow> s)
                            @ ''/'' @ ''subscribe'' @ ''?'' @ query
                in (n', effs @ [OnInfo (''Jetstream: '' @ url)], Inr url))))"

text \<open>The \<^verbatim>\<open>try\<close> around one chunk in the iterator: decompress if \<^verbatim>\<open>compress\<close> is
  truthy, parse.\<close>

definition Jetstream_decode :: "wire \<Rightarrow> 'e IngesterOptions \<Rightarrow> bytes \<Rightarrow> bytes
                                  \<Rightarrow> error + JetstreamEventKind" where
  "Jetstream_decode w opts dict chunk =
     (if compress opts = Some True then
        (case decompressUsingDict w dict chunk of
           Inl e \<Rightarrow> Inl e
         | Inr decompressed \<Rightarrow> JSON_parse w decompressed)
      else JSON_parse w chunk)"

fun kind_did :: "JetstreamEventKind \<Rightarrow> string" where
  "kind_did (KindCommit c) = jet_did c"
| "kind_did (KindAccount did time_us a) = did"
| "kind_did (KindIdentity did time_us i) = did"
| "kind_did (KindOther did time_us) = did"

fun kind_time_us :: "JetstreamEventKind \<Rightarrow> int" where
  "kind_time_us (KindCommit c) = jet_time_us c"
| "kind_time_us (KindAccount did time_us a) = time_us"
| "kind_time_us (KindIdentity did time_us i) = time_us"
| "kind_time_us (KindOther did time_us) = time_us"

definition Jetstream_start_body :: "collab \<Rightarrow> JetstreamEvent IngesterOptions
                                      \<Rightarrow> JetstreamEventKind \<Rightarrow> effect list" where
  "Jetstream_start_body env opts evt =
     (if runner opts \<noteq> None
      then [TrackJetstreamEvent (kind_did evt) (kind_time_us evt) evt]
      else Jetstream_processEvt env opts evt)"

text \<open>One iteration: no chunk throws out of the iterator.\<close>

fun Jetstream_frames :: "wire \<Rightarrow> collab \<Rightarrow> jsrt \<Rightarrow> JetstreamEvent IngesterOptions \<Rightarrow> bytes
                           \<Rightarrow> nat \<Rightarrow> bytes step list \<Rightarrow> nat \<times> effect list" where
  "Jetstream_frames w env rt opts dict n [] = (n, [])"
| "Jetstream_frames w env rt opts dict n (Connect # rest) =
     (case Jetstream_getUrl rt opts n of
        (n', effs, url) \<Rightarrow>
          (case Jetstream_frames w env rt opts dict n' rest of
             (n'', effs') \<Rightarrow> (n'', effs @ effs')))"
| "Jetstream_frames w env rt opts dict n (Chunk chunk # rest) =
     (case Jetstream_frames w env rt opts dict n rest of
        (n'', effs') \<Rightarrow>
          (n'',
           (case Jetstream_decode w opts dict chunk of
              Inl err \<Rightarrow> [OnError (JetstreamDecompressError err)]
            | Inr record \<Rightarrow> Jetstream_start_body env opts record)
           @ effs'))"

text \<open>
  \<^verbatim>\<open>Jetstream.start\<close>. Each iteration begins by initialising the decompressor and
  fetching the dictionary, which can throw before any frame is read: an iteration of
  the script comes with what that gives.
\<close>

fun Jetstream_start :: "wire \<Rightarrow> collab \<Rightarrow> jsrt \<Rightarrow> JetstreamEvent IngesterOptions \<Rightarrow> nat
                          \<Rightarrow> ((error + bytes) \<times> bytes session) list \<Rightarrow> effect list \<times> run" where
  "Jetstream_start w env rt opts n [] = ([], Pending)"
| "Jetstream_start w env rt opts n ((fetched, steps, ending) # later) =
     (case (case fetched of
              Inl e \<Rightarrow> (n, [], Throws e)
            | Inr dict \<Rightarrow>
                (case Jetstream_frames w env rt opts dict n steps of
                   (n', effs) \<Rightarrow> (n', effs, ending))) of
        (n', effs, Ends) \<Rightarrow> (effs, Returned)
      | (n', effs, Throws err) \<Rightarrow>
          if isAbortError err then (effs @ [DestroyDeferResolve], Returned)
          else (case Jetstream_start w env rt opts n' later of
                  (effs', r) \<Rightarrow>
                    (effs @ [OnError (JetstreamSubscriptionError err),
                             Wait (reconnectDelay opts)] @ effs', r)))"

section \<open>The Turbostream subscription and its supervisor\<close>

definition Turbostream_getUrl :: "'e IngesterOptions \<Rightarrow> effect list \<times> string" where
  "Turbostream_getUrl opts =
     (let url = (case service opts of None \<Rightarrow> ''wss://api.graze.social'' | Some s \<Rightarrow> s)
                  @ ''/app/api/v1/turbostream/'' @ ''turbostream''
      in ([OnInfo (''Turbostream: '' @ url)], url))"

fun Turbostream_frames :: "wire \<Rightarrow> collab \<Rightarrow> TurbostreamCommitEvt IngesterOptions
                             \<Rightarrow> bytes step list \<Rightarrow> effect list" where
  "Turbostream_frames w env opts [] = []"
| "Turbostream_frames w env opts (Connect # rest) =
     fst (Turbostream_getUrl opts) @ Turbostream_frames w env opts rest"
| "Turbostream_frames w env opts (Chunk chunk # rest) =
     (case JSON_parse_turbostream w chunk of
        Inl err \<Rightarrow> [OnError (TurbostreamDecompressError err)]
      | Inr record \<Rightarrow> Turbostream_processEvt env opts record)
     @ Turbostream_frames w env opts rest"

fun Turbostream_start :: "wire \<Rightarrow> collab \<Rightarrow> TurbostreamCommitEvt IngesterOptions
                            \<Rightarrow> bytes session list \<Rightarrow> effect list \<times> run" where
  "Turbostream_start w env opts [] = ([], Pending)"
| "Turbostream_start w env opts ((steps, ending) # later) =
     (case ending of
        Ends \<Rightarrow> (Turbostream_frames w env opts steps, Returned)
      | Throws err \<Rightarrow>
          if isAbortError err
          then (Turbostream_frames w env opts steps @ [DestroyDeferResolve], Returned)
          else (case Turbostream_start w env opts later of
                  (effs', r) \<Rightarrow>
                    (Turbostream_frames w env opts steps
                       @ [OnError (TurbostreamSubscriptionError err),
                          Wait (reconnectDelay opts)] @ effs', r)))"

section \<open>Reports of handler failures\<close>

text \<open>The effects that are a report of a failure of the caller's handler, and the
  options with a handler that never throws.\<close>

fun isHandlerError :: "effect \<Rightarrow> bool" where
  "isHandlerError (OnError (FirehoseHandlerError e w)) = True"
| "isHandlerError (OnError (JetstreamHandlerError e w)) = True"
| "isHandlerError (OnError (TurbostreamHandlerError e w)) = True"
| "isHandlerError x = False"

definition quiet :: "'e IngesterOptions \<Rightarrow> 'e IngesterOptions" where
  "quiet opts = opts\<lparr> handleEvent := (\<lambda>x. None) \<rparr>"

definition unreported :: "effect list \<Rightarrow> effect list" where
  "unreported effs = filter (\<lambda>e. \<not> isHandlerError e) effs"

section \<open>Example collaborators\<close>

text \<open>
  A small concrete set of collaborators, used to run the model on explicit envelopes.
  Paths are split at their single slash, the key \<open>''k0''\<close> is the cached signing key
  and \<open>''k1''\<close> the refreshed one. The repository of the examples holds the record
  \<open>''cidA''\<close> at \<open>''app.post/1''\<close> and the record \<open>''cidB''\<close> at \<open>''app.post/2''\<close>. The
  block set \<open>''car1''\<close> holds both record blocks, \<open>''car2''\<close> holds a second block that
  does not decode, and \<open>''car0''\<close> holds no block.
\<close>

definition ex_parseDataKey :: "string \<Rightarrow> error + (string \<times> string)" where
  "ex_parseDataKey p =
     (if p = ''app.post/1'' then Inr (''app.post'', ''1'')
      else if p = ''app.post/2'' then Inr (''app.post'', ''2'')
      else if p = ''app.like/1'' then Inr (''app.like'', ''1'')
      else Inl (Error ''Error'' ''Invalid record key''))"

definition ex_readCar :: "bytes \<Rightarrow> error + (CID \<times> bytes) list" where
  "ex_readCar b =
     (if b = ''car1'' then Inr [(''cidA'', ''bytesA''), (''cidB'', ''bytesB'')]
      else if b = ''car2'' then Inr [(''cidA'', ''bytesA''), (''cidB'', ''junk'')]
      else if b = ''car0'' then Inr []
      else Inl (Error ''Error'' ''Invalid CAR''))"

definition ex_cborToLexRecord :: "bytes \<Rightarrow> error + lexrec" where
  "ex_cborToLexRecord b =
     (if b = ''bytesA'' then Inr ''recordA''
      else if b = ''bytesB'' then Inr ''recordB''
      else Inl (Error ''Error'' ''lexicon records be a json object''))"

definition ex_mst :: "string \<Rightarrow> CID option" where
  "ex_mst p =
     (if p = ''app.post/1'' then Some ''cidA''
      else if p = ''app.post/2'' then Some ''cidB''
      else None)"

text \<open>
  The example verification, as the library proceeds: it reads the block set, checks
  the signature, and then takes the claims in order. The record a claim's path leads
  to is read from the block set and decoded, either of which can throw; the claim is
  verified when its content id is that of the record, or when it claims absence and
  there is no record.
\<close>

fun ex_verifyClaims :: "(CID \<times> bytes) list \<Rightarrow> RecordCidClaim list
                          \<Rightarrow> error + RecordCidClaim list" where
  "ex_verifyClaims car [] = Inr []"
| "ex_verifyClaims car (cl # cls) =
     (case ex_mst (claim_collection cl @ ''/'' @ claim_rkey cl) of
        None \<Rightarrow>
          (case ex_verifyClaims car cls of
             Inl e \<Rightarrow> Inl e
           | Inr vs \<Rightarrow> Inr (if claim_cid cl = None then cl # vs else vs))
      | Some found \<Rightarrow>
          (case map_of car found of
             None \<Rightarrow> Inl (Error ''MissingBlockError'' ''block not found'')
           | Some b \<Rightarrow>
               (case ex_cborToLexRecord b of
                  Inl e \<Rightarrow> Inl e
                | Inr r \<Rightarrow>
                    (case ex_verifyClaims car cls of
                       Inl e \<Rightarrow> Inl e
                     | Inr vs \<Rightarrow> Inr (if claim_cid cl = Some found then cl # vs else vs)))))"

definition ex_verifyProofs :: "bytes \<Rightarrow> RecordCidClaim list \<Rightarrow> string \<Rightarrow> signing_key
                                 \<Rightarrow> error + RecordCidClaim list" where
  "ex_verifyProofs blks claims did k =
     (case ex_readCar blks of
        Inl e \<Rightarrow> Inl e
      | Inr car \<Rightarrow>
          if (k = ''k1'' \<and> did = ''did:plc:rotated'') \<or>
             (k = ''k0'' \<and> did \<noteq> ''did:plc:rotated'' \<and> did \<noteq> ''did:plc:forged'')
          then ex_verifyClaims car claims
          else Inl (RepoVerificationError ''Invalid signature on commit''))"

definition ex_collab :: collab where
  "ex_collab = \<lparr>
     parseDataKey = ex_parseDataKey,
     formatDataKey = (\<lambda>c r. c @ ''/'' @ r),
     resolveAtprotoKey = (\<lambda>did force. Inr (if force then ''k1'' else ''k0'')),
     verifyProofs = ex_verifyProofs,
     readCar = ex_readCar,
     readCarWithRoot = (\<lambda>b. case ex_readCar b of
                               Inl e \<Rightarrow> Inl e
                             | Inr car \<Rightarrow> Inr (''root'', car)),
     cborToLexRecord = ex_cborToLexRecord,
     AtUri_make = (\<lambda>h p. case ex_parseDataKey p of
                             Inl e \<Rightarrow> Inl (Error ''Error'' ''Invalid at uri'')
                           | Inr (c, r) \<Rightarrow> Inr \<lparr> host = h, collection = c, rkey = r \<rparr>),
     did_resolve = (\<lambda>d. Inr (if d = ''did:plc:alice'' then Some ''docAlice'' else None)),
     parseToAtprotoDocument = (\<lambda>d. if d = ''docAlice'' then Inr (Some ''alice.test'')
                                    else Inr None),
     handle_resolve = (\<lambda>h. Inr (if h = ''alice.test'' then Some ''did:plc:alice'' else None)),
     isoOfMicros = (\<lambda>t. Inr ''1970-01-01T00:00:00.000Z''),
     CID_parse = (\<lambda>s. if s = [] then Inl (Error ''Error'' ''Invalid CID'') else Inr s),
     ipldToLex = (\<lambda>j. Inr j),
     is_map = (\<lambda>r. r \<noteq> ''42'') \<rparr>"

definition ex_op :: "string \<Rightarrow> string \<Rightarrow> CID option \<Rightarrow> RepoOp" where
  "ex_op a p c = \<lparr> action = a, path = p, cid = c \<rparr>"

definition ex_commit :: "string \<Rightarrow> bytes \<Rightarrow> RepoOp list \<Rightarrow> Commit" where
  "ex_commit did blks os =
     \<lparr> seq = 7, repo = did, commit = ''cidC'', rev = ''r1'', time = ''t1'',
       blocks = blks, ops = os \<rparr>"

definition ex_jet :: "string \<Rightarrow> string \<Rightarrow> string \<Rightarrow> JetstreamEventKindCommit" where
  "ex_jet did oper coll =
     \<lparr> jet_did = did, jet_time_us = 1000,
       jet_commit = \<lparr> js_rev = ''r1'', js_operation = oper, js_collection = coll,
                      js_rkey = ''1'', js_record = ''{}'', js_cid = ''cidA'' \<rparr> \<rparr>"

definition ex_account :: "string option \<Rightarrow> Account" where
  "ex_account st =
     \<lparr> acc_seq = 3, acc_did = ''did:plc:alice'', acc_time = ''t3'', active = False,
       status = st \<rparr>"

text \<open>A runtime that prints the numbers and dates used below and leaves the
  characters of names and values as they are.\<close>

definition ex_rt :: jsrt where
  "ex_rt = \<lparr>
     numberToString = (\<lambda>n. if n = 42 then ''42'' else if n = 7 then ''7'' else ''0''),
     toISOString = (\<lambda>t. ''1970-01-01T00:00:00.000Z''),
     formEncode = (\<lambda>s. s) \<rparr>"

text \<open>Options of a Firehose with the defaults (authenticated commits, nothing
  excluded, no filter), a cursor source that has no cursor at first and the cursor 42
  afterwards, and a handler that throws on account events and on creates.\<close>

definition ex_opts :: "Event IngesterOptions" where
  "ex_opts = \<lparr>
     service = None, filterCollections = None, filterDids = None,
     unauthenticatedCommits = False, unauthenticatedHandles = False,
     excludeCommit = False, excludeAccount = False, excludeIdentity = False,
     excludeSync = False, compress = None, subscriptionReconnectDelay = None,
     getCursor = Some (\<lambda>n. if n = 0 then None else Some 42), runner = None,
     handleEvent = (\<lambda>e. case e of
                         AccountEvent a \<Rightarrow> Some (Error ''Error'' ''boom'')
                       | CommitEvent c \<Rightarrow>
                           if event c = ''create'' then Some (Error ''Error'' ''boom'')
                           else None
                       | _ \<Rightarrow> None) \<rparr>"


text \<open>Options of a Jetstream with a runner, and of a Turbostream; both handlers
  throw on every event.\<close>

definition ex_jopts :: "JetstreamEvent IngesterOptions" where
  "ex_jopts = \<lparr>
     service = None, filterCollections = Some [''app.post''], filterDids = None,
     unauthenticatedCommits = False, unauthenticatedHandles = False,
     excludeCommit = False, excludeAccount = False, excludeIdentity = False,
     excludeSync = False, compress = Some True, subscriptionReconnectDelay = Some 500,
     getCursor = None, runner = Some (\<lambda>n. Some 7),
     handleEvent = (\<lambda>e. Some (Error ''Error'' ''boom'')) \<rparr>"

definition ex_topts :: "TurbostreamCommitEvt IngesterOptions" where
  "ex_topts = \<lparr>
     service = None, filterCollections = None, filterDids = None,
     unauthenticatedCommits = False, unauthenticatedHandles = False,
     excludeCommit = False, excludeAccount = False, excludeIdentity = False,
     excludeSync = False, compress = None, subscriptionReconnectDelay = None,
     getCursor = None, runner = None,
     handleEvent = (\<lambda>e. Some (Error ''Error'' ''boom'')) \<rparr>"

text \<open>Decoders that know three Firehose frames (an account envelope, a commit
  envelope of a create and a delete, and a frame that is cut short), and one document
  of each JSON variant.\<close>

definition ex_two_ops :: Commit where
  "ex_two_ops = ex_commit ''did:plc:alice'' ''car1''
                  [ex_op ''create'' ''app.post/1'' (Some ''cidA''),
                   ex_op ''delete'' ''app.like/1'' None]"

definition ex_turbo :: TurbostreamEventKind where
  "ex_turbo = \<lparr> ts_at_uri = ''at://did:plc:alice/app.post/1'', ts_did = ''did:plc:alice'',
                ts_time_us = Some 1000, ts_message_kind = ''commit'',
                ts_message = ex_jet ''did:plc:alice'' ''delete'' ''app.post'',
                ts_hydrated_metadata = ''{}'' \<rparr>"

definition ex_wire :: wire where
  "ex_wire = \<lparr>
     ensureChunkIsMessage =
       (\<lambda>c. if c = ''cut'' then Inl (Error ''Error'' ''Unexpected end of CBOR data'')
            else Inr \<lparr> header_t = Some ''#frame'', body = Some c \<rparr>),
     assertValidXrpcMessage =
       (\<lambda>v. case v of
               None \<Rightarrow> Inl (Error ''ValidationError'' ''Message must be an object'')
             | Some (t, b) \<Rightarrow>
                 if b = ''account'' then Inr (IsAccount (ex_account None))
                 else if b = ''commit'' then Inr (IsCommit ex_two_ops)
                 else Inl (Error ''ValidationError'' ''Message must have the property seq'')),
     decompressUsingDict =
       (\<lambda>d c. if d = ''dict'' then Inr c else Inl (Error ''Error'' ''Dictionary mismatch'')),
     JSON_parse =
       (\<lambda>b. if b = ''{account}'' then Inr (KindAccount ''did:plc:alice'' 1000 (ex_account None))
            else Inl (Error ''SyntaxError'' ''Unexpected token'')),
     JSON_parse_turbostream =
       (\<lambda>b. if b = ''{turbo}'' then Inr ex_turbo
            else Inl (Error ''SyntaxError'' ''Unexpected token'')) \<rparr>"

section \<open>Properties of the filter\<close>

lemma filterOps_Inr:
  "filterOps env did fc fd xs = Inr kept \<Longrightarrow> kept = filter (opPasses env fc fd did) xs"
proof (induction xs arbitrary: kept)
  case Nil
  then show ?case by simp
next
  case (Cons op rest)
  from Cons.prems obtain coll rk kept' where
    k: "parseDataKey env (path op) = Inr (coll, rk)" and
    r: "filterOps env did fc fd rest = Inr kept'" and
    e: "kept = (if passesFilter fc fd coll did then op # kept' else kept')"
    by (auto split: sum.splits prod.splits)
  have h: "opPasses env fc fd did op = passesFilter fc fd coll did"
    by (simp add: opPasses_def k)
  have "kept' = filter (opPasses env fc fd did) rest"
    using Cons.IH r by simp
  with e h show ?case by simp
qed

lemma filterOps_parses:
  "filterOps env did fc fd xs = Inr kept \<Longrightarrow> op \<in> set xs
     \<Longrightarrow> \<exists>coll rk. parseDataKey env (path op) = Inr (coll, rk)"
proof (induction xs arbitrary: kept)
  case Nil
  then show ?case by simp
next
  case (Cons x rest)
  then show ?case
    by (auto split: sum.splits prod.splits if_splits)
qed

lemma filterOps_total:
  "(\<And>op. op \<in> set xs \<Longrightarrow> \<exists>coll rk. parseDataKey env (path op) = Inr (coll, rk))
     \<Longrightarrow> filterOps env did fc fd xs = Inr (filter (opPasses env fc fd did) xs)"
proof (induction xs)
  case Nil
  then show ?case by simp
next
  case (Cons x rest)
  from Cons.prems obtain coll rk where k: "parseDataKey env (path x) = Inr (coll, rk)"
    by force
  have "filterOps env did fc fd rest = Inr (filter (opPasses env fc fd did) rest)"
    using Cons by simp
  moreover have "opPasses env fc fd did x = passesFilter fc fd coll did"
    by (simp add: opPasses_def k)
  ultimately show ?case using k by simp
qed

text \<open>
  C4. With both lists empty every operation passes; in general an operation passes
  exactly when its collection is wanted (or no collection is named) and its
  repository is wanted (or no repository is named). For the Firehose the operation's
  collection is the one \<^verbatim>\<open>parseDataKey\<close> reads from its path; for Jetstream it is the
  \<^verbatim>\<open>collection\<close> field, and passing means that the event is formatted.
\<close>

theorem filter_is_conjunction:
  assumes "maybeFilterOps env evt fcs fds = Inr kept"
    and "op \<in> set (ops evt)"
    and "parseDataKey env (path op) = Inr (coll, rk)"
  shows "((op \<in> set kept) =
           ((coll \<in> set fcs \<or> fcs = []) \<and>
            (repo evt \<in> set fds \<or> fds = []))) \<and>
         (fcs = [] \<and> fds = [] \<longrightarrow> kept = ops evt) \<and>
         parseJetstreamKindCommitUnauthenticated env jevt fcs fds =
           (if (js_collection (jet_commit jevt) \<in> set fcs
                  \<or> fcs = []) \<and>
               (jet_did jevt \<in> set fds \<or> fds = [])
            then formatCommitEvt env jevt else Inr None) \<and>
         parseJetstreamKindCommitUnauthenticated env jevt [] [] = formatCommitEvt env jevt"
proof -
  have k: "kept = filter (opPasses env fcs fds (repo evt)) (ops evt)"
    using assms(1) by (simp add: maybeFilterOps_def filterOps_Inr)
  have one: "(op \<in> set kept) =
           ((coll \<in> set fcs \<or> fcs = []) \<and>
            (repo evt \<in> set fds \<or> fds = []))"
    using assms(2,3) by (auto simp: k opPasses_def passesFilter_def)
  have all: "\<forall>x \<in> set (ops evt). opPasses env [] [] (repo evt) x"
  proof
    fix x assume "x \<in> set (ops evt)"
    then obtain c r where "parseDataKey env (path x) = Inr (c, r)"
      using assms(1) filterOps_parses unfolding maybeFilterOps_def by blast
    then show "opPasses env [] [] (repo evt) x"
      by (simp add: opPasses_def passesFilter_def)
  qed
  have two: "fcs = [] \<and> fds = [] \<longrightarrow> kept = ops evt"
    using all by (auto simp: k)
  have three: "parseJetstreamKindCommitUnauthenticated env jevt fcs fds =
           (if (js_collection (jet_commit jevt) \<in> set fcs
                  \<or> fcs = []) \<and>
               (jet_did jevt \<in> set fds \<or> fds = [])
            then formatCommitEvt env jevt else Inr None)"
    by (auto simp: parseJetstreamKindCommitUnauthenticated_def)
  have four: "parseJetstreamKindCommitUnauthenticated env jevt [] [] = formatCommitEvt env jevt"
    by (simp add: parseJetstreamKindCommitUnauthenticated_def)
  from one two three four show ?thesis by blast
qed

theorem filter_is_conjunction_witness:
  "maybeFilterOps ex_collab
     (ex_commit ''did:plc:alice'' ''car1''
        [ex_op ''create'' ''app.post/1'' (Some ''cidA''),
         ex_op ''delete'' ''app.like/1'' None])
     [''app.post''] [''did:plc:alice'', ''did:plc:bob'']
     = Inr [ex_op ''create'' ''app.post/1'' (Some ''cidA'')] \<and>
   parseDataKey ex_collab (path (ex_op ''delete'' ''app.like/1'' None))
     = Inr (''app.like'', ''1'') \<and>
   ex_op ''delete'' ''app.like/1'' None
     \<notin> set [ex_op ''create'' ''app.post/1'' (Some ''cidA'')] \<and>
   parseJetstreamKindCommitUnauthenticated ex_collab
     (ex_jet ''did:plc:carol'' ''delete'' ''app.post'')
     [''app.post''] [''did:plc:alice'', ''did:plc:bob''] = Inr None"
proof -
  let ?e = "ex_commit ''did:plc:alice'' ''car1''
        [ex_op ''create'' ''app.post/1'' (Some ''cidA''),
         ex_op ''delete'' ''app.like/1'' None]"
  have h1: "maybeFilterOps ex_collab ?e [''app.post''] [''did:plc:alice'', ''did:plc:bob'']
              = Inr [ex_op ''create'' ''app.post/1'' (Some ''cidA'')]"
    by (simp add: maybeFilterOps_def ex_collab_def ex_commit_def ex_op_def
        ex_parseDataKey_def passesFilter_def)
  have h2: "ex_op ''delete'' ''app.like/1'' None \<in> set (ops ?e)"
    by (simp add: ex_commit_def)
  have h3: "parseDataKey ex_collab (path (ex_op ''delete'' ''app.like/1'' None))
              = Inr (''app.like'', ''1'')"
    by (simp add: ex_collab_def ex_op_def ex_parseDataKey_def)
  note c = filter_is_conjunction [OF h1 h2 h3,
      of "ex_jet ''did:plc:carol'' ''delete'' ''app.post''"]
  have j: "jet_did (ex_jet ''did:plc:carol'' ''delete'' ''app.post'') = ''did:plc:carol''"
    by (simp add: ex_jet_def)
  show ?thesis using h1 h3 c j by simp
qed

section \<open>Properties of the commit paths\<close>

lemma formatCommitOp_pushed:
  "formatCommitOp env evt car op = Inr pushed \<Longrightarrow> (pushed \<noteq> None) = hasEvent car op"
  by (auto simp: formatCommitOp_def hasEvent_def Let_def
      split: sum.splits option.splits if_splits)

lemma formatCommitOps_loop_Inr:
  "formatCommitOps_loop env evt car os = Inr out \<Longrightarrow>
     list_all2 (\<lambda>op e. formatCommitOp env evt car op = Inr (Some e))
       (filter (hasEvent car) os) out"
proof (induction os arbitrary: out)
  case Nil
  then show ?case by simp
next
  case (Cons op rest)
  from Cons.prems obtain pushed evts where
    p: "formatCommitOp env evt car op = Inr pushed" and
    r: "formatCommitOps_loop env evt car rest = Inr evts" and
    o: "out = (case pushed of None \<Rightarrow> evts | Some e \<Rightarrow> e # evts)"
    by (auto split: sum.splits)
  have ih: "list_all2 (\<lambda>op e. formatCommitOp env evt car op = Inr (Some e))
       (filter (hasEvent car) rest) evts"
    using Cons.IH r by simp
  have h: "(pushed \<noteq> None) = hasEvent car op"
    using p by (rule formatCommitOp_pushed)
  show ?case
  proof (cases pushed)
    case None
    then show ?thesis using h ih o by simp
  next
    case (Some e)
    then show ?thesis using h ih o p by simp
  qed
qed

lemma claimsOf_total:
  "(\<And>op. op \<in> set os \<Longrightarrow> \<exists>coll rk. parseDataKey env (path op) = Inr (coll, rk))
     \<Longrightarrow> \<exists>cs. claimsOf env os = Inr cs"
proof (induction os)
  case Nil
  then show ?case by simp
next
  case (Cons x rest)
  from Cons.prems obtain coll rk where k: "parseDataKey env (path x) = Inr (coll, rk)"
    by force
  from Cons obtain cs where "claimsOf env rest = Inr cs" by auto
  with k show ?case by simp
qed

lemma parseCommitAuthenticated_empty:
  "maybeFilterOps env evt fc fd = Inr [] \<Longrightarrow>
     parseCommitAuthenticated env evt fc fd force = ([], Inr [])"
  by (subst parseCommitAuthenticated.simps) simp

lemma parseCommitAuthenticated_verified:
  assumes "maybeFilterOps env evt fc fd = Inr os" and "os \<noteq> []"
    and "claimsOf env os = Inr claims"
    and "resolveAtprotoKey env (repo evt) force = Inr key"
    and "verifyProofs env (blocks evt) claims (repo evt) key = Inr verified"
  shows "parseCommitAuthenticated env evt fc fd force =
           ([ResolveAtprotoKey (repo evt) force, VerifyProofs key],
            formatCommitOps env evt (filter (isVerifiedOp (verifiedCidsOf env verified)) os))"
  using assms by (subst parseCommitAuthenticated.simps) (simp add: Let_def)

lemma parseCommitAuthenticated_retry:
  assumes "maybeFilterOps env evt fc fd = Inr os" and "os \<noteq> []"
    and "claimsOf env os = Inr claims"
    and "resolveAtprotoKey env (repo evt) False = Inr key"
    and "verifyProofs env (blocks evt) claims (repo evt) key = Inl err"
    and "isRepoVerificationError err"
  shows "parseCommitAuthenticated env evt fc fd False =
           ([ResolveAtprotoKey (repo evt) False, VerifyProofs key]
              @ fst (parseCommitAuthenticated env evt fc fd True),
            snd (parseCommitAuthenticated env evt fc fd True))"
  using assms by (subst parseCommitAuthenticated.simps) (simp add: Let_def)

lemma parseCommitAuthenticated_fails:
  assumes "maybeFilterOps env evt fc fd = Inr os" and "os \<noteq> []"
    and "claimsOf env os = Inr claims"
    and "resolveAtprotoKey env (repo evt) force = Inr key"
    and "verifyProofs env (blocks evt) claims (repo evt) key = Inl err"
    and "\<not> isRepoVerificationError err \<or> force"
  shows "parseCommitAuthenticated env evt fc fd force =
           ([ResolveAtprotoKey (repo evt) force, VerifyProofs key], Inl err)"
  using assms by (subst parseCommitAuthenticated.simps) (auto simp add: Let_def)

lemma parseCommitAuthenticated_nokey:
  assumes "maybeFilterOps env evt fc fd = Inr os" and "os \<noteq> []"
    and "claimsOf env os = Inr claims"
    and "resolveAtprotoKey env (repo evt) force = Inl err"
  shows "parseCommitAuthenticated env evt fc fd force =
           ([ResolveAtprotoKey (repo evt) force], Inl err)"
  using assms by (subst parseCommitAuthenticated.simps) (auto simp add: Let_def)

lemma parseEvt_commit_error:
  assumes "\<not> excludeCommit opts" and "\<not> unauthenticatedCommits opts"
    and "fcs = (case filterCollections opts of None \<Rightarrow> [] | Some l \<Rightarrow> l)"
    and "fds = (case filterDids opts of None \<Rightarrow> [] | Some l \<Rightarrow> l)"
    and "snd (parseCommitAuthenticated env evt fcs fds False) = Inl e"
  shows "parseEvt env opts (IsCommit evt) =
           (fst (parseCommitAuthenticated env evt fcs fds False)
              @ [OnError (FirehoseParseError e (IsCommit evt))], [])"
  using assms by (simp add: parseEvt_def parseEvt_try_def Let_def)



lemma parseCommitAuthenticated_result:
  assumes filt: "maybeFilterOps env evt fcs fds = Inr os"
    and claims: "claimsOf env os = Inr claims"
    and key: "resolveAtprotoKey env (repo evt) force = Inr key"
    and ver: "verifyProofs env (blocks evt) claims (repo evt) key = Inr verified"
    and car: "readCar env (blocks evt) = Inr car"
  shows "snd (parseCommitAuthenticated env evt fcs fds force) =
           formatCommitOps env evt
             (filter (\<lambda>op. opPasses env fcs fds (repo evt) op \<and>
                           isVerifiedOp (verifiedCidsOf env verified) op) (ops evt))"
proof -
  let ?V = "verifiedCidsOf env verified"
  let ?keep = "\<lambda>op. opPasses env fcs fds (repo evt) op \<and> isVerifiedOp ?V op"
  have os: "os = filter (opPasses env fcs fds (repo evt)) (ops evt)"
    using filt by (simp add: maybeFilterOps_def filterOps_Inr)
  have kept: "filter (isVerifiedOp ?V) os = filter ?keep (ops evt)"
    by (simp add: os conj_commute)
  show ?thesis
  proof (cases "os = []")
    case True
    then have "filter ?keep (ops evt) = []" using kept by simp
    then show ?thesis
      using True filt car
      by (simp add: parseCommitAuthenticated_empty formatCommitOps_def)
  next
    case False
    show ?thesis
      using parseCommitAuthenticated_verified [OF filt False claims key ver] kept
      by simp
  qed
qed

lemma foldl_verified_Some:
  "foldl (\<lambda>m c. m(formatDataKey env (claim_collection c) (claim_rkey c) \<mapsto> claim_cid c))
     m verified p = Some v \<Longrightarrow>
   m p = Some v \<or> (\<exists>cl \<in> set verified. claim_cid cl = v)"
proof (induction verified arbitrary: m)
  case Nil
  then show ?case by simp
next
  case (Cons c rest)
  let ?m' = "m(formatDataKey env (claim_collection c) (claim_rkey c) \<mapsto> claim_cid c)"
  from Cons.prems have "?m' p = Some v \<or> (\<exists>cl \<in> set rest. claim_cid cl = v)"
    using Cons.IH [of ?m'] by simp
  then show ?case by (auto split: if_splits)
qed

lemma verifiedCidsOf_Some:
  "verifiedCidsOf env verified p = Some v \<Longrightarrow> \<exists>cl \<in> set verified. claim_cid cl = v"
  using foldl_verified_Some [of env Map.empty verified p v]
  by (simp add: verifiedCidsOf_def)

lemma verified_block_present:
  assumes "verifiedBlocksPresent car verified"
    and "verifiedCidsOf env verified p = Some (Some c)"
  shows "map_of car c \<noteq> None"
proof -
  from assms(2) obtain cl where "cl \<in> set verified" "claim_cid cl = Some c"
    using verifiedCidsOf_Some by blast
  with assms(1) show ?thesis
    by (auto simp: verifiedBlocksPresent_def list_all_iff)
qed

lemma matchesVerified_iff:
  assumes "verifiedBlocksPresent car verified"
  shows "matchesVerified (verifiedCidsOf env verified) op =
           (isVerifiedOp (verifiedCidsOf env verified) op \<and> hasEvent car op)"
proof (cases "action op = ''delete''")
  case True
  then show ?thesis
    by (simp add: matchesVerified_def isVerifiedOp_def hasEvent_def)
next
  case False
  show ?thesis
  proof (cases "cid op")
    case None
    then show ?thesis using False
      by (simp add: matchesVerified_def isVerifiedOp_def hasEvent_def)
  next
    case (Some c)
    have "map_of car c \<noteq> None"
      if "verifiedCidsOf env verified (path op) = Some (Some c)"
      using verified_block_present [OF assms that] .
    then show ?thesis using False Some
      by (auto simp: matchesVerified_def isVerifiedOp_def hasEvent_def)
  qed
qed

lemma list_all2_left:
  "list_all2 P xs ys \<Longrightarrow> x \<in> set xs \<Longrightarrow> \<exists>y \<in> set ys. P x y"
  by (induction rule: list_all2_induct) auto

lemma list_all2_right:
  "list_all2 P xs ys \<Longrightarrow> y \<in> set ys \<Longrightarrow> \<exists>x \<in> set xs. P x y"
  by (induction rule: list_all2_induct) auto

text \<open>
  C1. Take an authenticated commit whose key resolves and whose proofs verify, the
  verification having read the verified records from the envelope's block set, and
  let \<^verbatim>\<open>parseCommitAuthenticated\<close> return a list of events. The list consists, in
  order, of the events of exactly those operations of the envelope that pass the
  filter and whose claimed content id is the verified entry of their path (for a
  delete: whose entry is null): each such operation has its event in the list, and
  each event of the list is that of such an operation. The result is that of
  formatting only the operations that pass the filter and the test of the final
  \<^verbatim>\<open>ops.filter\<close>: an operation that fails it is not looked at again, so it yields
  neither an event nor an error.
\<close>

theorem parseCommitAuthenticated_output:
  assumes filt: "maybeFilterOps env evt fcs fds = Inr os"
    and claims: "claimsOf env os = Inr claims"
    and key: "resolveAtprotoKey env (repo evt) force = Inr key"
    and ver: "verifyProofs env (blocks evt) claims (repo evt) key = Inr verified"
    and car: "readCar env (blocks evt) = Inr car"
    and present: "verifiedBlocksPresent car verified"
    and out: "snd (parseCommitAuthenticated env evt fcs fds force) = Inr out"
  shows "list_all2 (\<lambda>op e. formatCommitOp env evt car op = Inr (Some e))
           (filter (\<lambda>op. opPasses env fcs fds (repo evt) op \<and>
                         matchesVerified (verifiedCidsOf env verified) op) (ops evt))
           out \<and>
         (\<forall>op \<in> set (ops evt).
            opPasses env fcs fds (repo evt) op \<and>
            matchesVerified (verifiedCidsOf env verified) op \<longrightarrow>
            (\<exists>e \<in> set out. formatCommitOp env evt car op = Inr (Some e))) \<and>
         (\<forall>e \<in> set out. \<exists>op \<in> set (ops evt).
            opPasses env fcs fds (repo evt) op \<and>
            matchesVerified (verifiedCidsOf env verified) op \<and>
            formatCommitOp env evt car op = Inr (Some e)) \<and>
         snd (parseCommitAuthenticated env evt fcs fds force) =
           formatCommitOps env evt
             (filter (\<lambda>op. opPasses env fcs fds (repo evt) op \<and>
                           isVerifiedOp (verifiedCidsOf env verified) op) (ops evt))"
proof -
  let ?V = "verifiedCidsOf env verified"
  let ?keep = "\<lambda>op. opPasses env fcs fds (repo evt) op \<and> isVerifiedOp ?V op"
  let ?ab = "\<lambda>op. opPasses env fcs fds (repo evt) op \<and> matchesVerified ?V op"
  let ?R = "\<lambda>op e. formatCommitOp env evt car op = Inr (Some e)"
  have res: "snd (parseCommitAuthenticated env evt fcs fds force) =
               formatCommitOps env evt (filter ?keep (ops evt))"
    using filt claims key ver car by (rule parseCommitAuthenticated_result)
  then have "formatCommitOps_loop env evt car (filter ?keep (ops evt)) = Inr out"
    using out car by (simp add: formatCommitOps_def)
  then have "list_all2 ?R (filter (hasEvent car) (filter ?keep (ops evt))) out"
    by (rule formatCommitOps_loop_Inr)
  moreover have "filter (hasEvent car) (filter ?keep (ops evt)) = filter ?ab (ops evt)"
    by (auto simp: matchesVerified_iff [OF present] intro: filter_cong)
  ultimately have corr: "list_all2 ?R (filter ?ab (ops evt)) out" by simp
  have left: "\<forall>op \<in> set (ops evt). ?ab op \<longrightarrow> (\<exists>e \<in> set out. ?R op e)"
    using list_all2_left [OF corr] by simp
  have right: "\<forall>e \<in> set out. \<exists>op \<in> set (ops evt). ?ab op \<and> ?R op e"
    using list_all2_right [OF corr] by fastforce
  from corr left right res show ?thesis by simp
qed


theorem parseCommitAuthenticated_output_witness:
  "maybeFilterOps ex_collab
     (ex_commit ''did:plc:alice'' ''car1''
        [ex_op ''create'' ''app.post/1'' (Some ''cidA''),
         ex_op ''create'' ''app.post/2'' (Some ''cidX''),
         ex_op ''delete'' ''app.like/1'' None])
     [] []
     = Inr [ex_op ''create'' ''app.post/1'' (Some ''cidA''),
            ex_op ''create'' ''app.post/2'' (Some ''cidX''),
            ex_op ''delete'' ''app.like/1'' None] \<and>
   verifyProofs ex_collab ''car1''
     [\<lparr> claim_collection = ''app.post'', claim_rkey = ''1'', claim_cid = Some ''cidA'' \<rparr>,
      \<lparr> claim_collection = ''app.post'', claim_rkey = ''2'', claim_cid = Some ''cidX'' \<rparr>,
      \<lparr> claim_collection = ''app.like'', claim_rkey = ''1'', claim_cid = None \<rparr>]
     ''did:plc:alice'' ''k0''
     = Inr [\<lparr> claim_collection = ''app.post'', claim_rkey = ''1'',
                 claim_cid = Some ''cidA'' \<rparr>,
            \<lparr> claim_collection = ''app.like'', claim_rkey = ''1'', claim_cid = None \<rparr>] \<and>
   verifiedBlocksPresent [(''cidA'', ''bytesA''), (''cidB'', ''bytesB'')]
     [\<lparr> claim_collection = ''app.post'', claim_rkey = ''1'', claim_cid = Some ''cidA'' \<rparr>,
      \<lparr> claim_collection = ''app.like'', claim_rkey = ''1'', claim_cid = None \<rparr>] \<and>
   (\<exists>out.
      snd (parseCommitAuthenticated ex_collab
        (ex_commit ''did:plc:alice'' ''car1''
           [ex_op ''create'' ''app.post/1'' (Some ''cidA''),
            ex_op ''create'' ''app.post/2'' (Some ''cidX''),
            ex_op ''delete'' ''app.like/1'' None])
        [] [] False) = Inr out \<and>
      map event out = [''create'', ''delete''] \<and>
      list_all2 (\<lambda>op e. formatCommitOp ex_collab
                 (ex_commit ''did:plc:alice'' ''car1''
                    [ex_op ''create'' ''app.post/1'' (Some ''cidA''),
                     ex_op ''create'' ''app.post/2'' (Some ''cidX''),
                     ex_op ''delete'' ''app.like/1'' None])
                 [(''cidA'', ''bytesA''), (''cidB'', ''bytesB'')] op = Inr (Some e))
        [ex_op ''create'' ''app.post/1'' (Some ''cidA''), ex_op ''delete'' ''app.like/1'' None]
        out)"
proof -
  let ?o1 = "ex_op ''create'' ''app.post/1'' (Some ''cidA'')"
  let ?o2 = "ex_op ''create'' ''app.post/2'' (Some ''cidX'')"
  let ?o3 = "ex_op ''delete'' ''app.like/1'' None"
  let ?e = "ex_commit ''did:plc:alice'' ''car1'' [?o1, ?o2, ?o3]"
  let ?c1 = "\<lparr> claim_collection = ''app.post'', claim_rkey = ''1'',
               claim_cid = Some ''cidA'' \<rparr>"
  let ?c2 = "\<lparr> claim_collection = ''app.post'', claim_rkey = ''2'',
               claim_cid = Some ''cidX'' \<rparr>"
  let ?c3 = "\<lparr> claim_collection = ''app.like'', claim_rkey = ''1'', claim_cid = None \<rparr>"
  let ?car = "[(''cidA'', ''bytesA''), (''cidB'', ''bytesB'')]"
  have h1: "maybeFilterOps ex_collab ?e [] [] = Inr [?o1, ?o2, ?o3]"
    by (simp add: maybeFilterOps_def ex_collab_def ex_commit_def ex_op_def
        ex_parseDataKey_def passesFilter_def)
  have h2: "claimsOf ex_collab [?o1, ?o2, ?o3] = Inr [?c1, ?c2, ?c3]"
    by (simp add: ex_collab_def ex_op_def ex_parseDataKey_def)
  have h3: "resolveAtprotoKey ex_collab (repo ?e) False = Inr ''k0''"
    by (simp add: ex_collab_def)
  have h4: "verifyProofs ex_collab (blocks ?e) [?c1, ?c2, ?c3] (repo ?e) ''k0''
              = Inr [?c1, ?c3]"
    by (simp add: ex_collab_def ex_commit_def ex_verifyProofs_def ex_readCar_def
        ex_mst_def ex_cborToLexRecord_def)
  have h5: "readCar ex_collab (blocks ?e) = Inr ?car"
    by (simp add: ex_collab_def ex_commit_def ex_readCar_def)
  have h6: "verifiedBlocksPresent ?car [?c1, ?c3]"
    by (simp add: verifiedBlocksPresent_def)
  have f: "filter (\<lambda>op. opPasses ex_collab [] [] (repo ?e) op \<and>
                         matchesVerified (verifiedCidsOf ex_collab [?c1, ?c3]) op) (ops ?e)
             = [?o1, ?o3]"
    by (simp add: opPasses_def passesFilter_def matchesVerified_def verifiedCidsOf_def
        ex_collab_def ex_commit_def ex_op_def ex_parseDataKey_def)
  have b: "blocks ?e = ''car1''" "repo ?e = ''did:plc:alice''"
    by (simp_all add: ex_commit_def)
  define out where "out = projr (snd (parseCommitAuthenticated ex_collab ?e [] [] False))"
  have run: "snd (parseCommitAuthenticated ex_collab ?e [] [] False) = Inr out \<and>
             map event out = [''create'', ''delete'']"
    unfolding out_def
    by (simp add: parseCommitAuthenticated.simps maybeFilterOps_def ex_collab_def
        ex_commit_def ex_op_def ex_parseDataKey_def passesFilter_def isVerifiedOp_def
        verifiedCidsOf_def ex_verifyProofs_def ex_readCar_def ex_mst_def
        ex_cborToLexRecord_def formatCommitOps_def formatCommitOp_def Let_def)
  then have r1: "snd (parseCommitAuthenticated ex_collab ?e [] [] False) = Inr out"
    and r2: "map event out = [''create'', ''delete'']"
    by simp_all
  note c = parseCommitAuthenticated_output [OF h1 h2 h3 h4 h5 h6 r1]
  from c have "list_all2 (\<lambda>op e. formatCommitOp ex_collab ?e ?car op = Inr (Some e))
                 (filter (\<lambda>op. opPasses ex_collab [] [] (repo ?e) op \<and>
                         matchesVerified (verifiedCidsOf ex_collab [?c1, ?c3]) op) (ops ?e))
                 out"
    by (rule conjunct1)
  then have r3: "list_all2 (\<lambda>op e. formatCommitOp ex_collab ?e ?car op = Inr (Some e))
                 [?o1, ?o3] out"
    by (simp only: f)
  have s4: "\<exists>out.
      snd (parseCommitAuthenticated ex_collab ?e [] [] False) = Inr out \<and>
      map event out = [''create'', ''delete''] \<and>
      list_all2 (\<lambda>op e. formatCommitOp ex_collab ?e ?car op = Inr (Some e)) [?o1, ?o3] out"
    by (rule exI [where x = out], intro conjI, rule r1, rule r2, rule r3)
  have s2: "verifyProofs ex_collab ''car1'' [?c1, ?c2, ?c3] ''did:plc:alice'' ''k0''
              = Inr [?c1, ?c3]"
    using h4 by (simp only: b)
  show ?thesis
    by (rule conjI [OF h1 conjI [OF s2 conjI [OF h6 s4]]])
qed

text \<open>
  C2. When the first verification fails with a \<^verbatim>\<open>RepoVerificationError\<close>, the call
  continues as the call with \<^verbatim>\<open>forceKeyRefresh = true\<close>: the key is resolved once
  more, with the refresh forced, and the proofs are verified at most once more. If
  that verification fails too, with whatever error, the calls made are the two
  resolutions and the two verifications and the error is the result. A first
  failure of any other kind is the result at once. An error that comes out of
  \<^verbatim>\<open>parseCommitAuthenticated\<close> is reported by \<^verbatim>\<open>parseEvt\<close> as a parse error with
  the envelope.
\<close>

theorem stale_key_retry_once:
  assumes filt: "maybeFilterOps env evt fcs fds = Inr os" and ne: "os \<noteq> []"
    and claims: "claimsOf env os = Inr claims"
    and key: "resolveAtprotoKey env (repo evt) False = Inr key"
    and fail: "verifyProofs env (blocks evt) claims (repo evt) key = Inl err"
  shows "(isRepoVerificationError err \<longrightarrow>
            parseCommitAuthenticated env evt fcs fds False =
              ([ResolveAtprotoKey (repo evt) False, VerifyProofs key]
                 @ fst (parseCommitAuthenticated env evt fcs fds True),
               snd (parseCommitAuthenticated env evt fcs fds True)) \<and>
            (\<exists>rest. fst (parseCommitAuthenticated env evt fcs fds True)
                      = ResolveAtprotoKey (repo evt) True # rest \<and>
                    (rest = [] \<or> (\<exists>k. rest = [VerifyProofs k]))) \<and>
            (\<forall>key' err'.
               resolveAtprotoKey env (repo evt) True = Inr key' \<and>
               verifyProofs env (blocks evt) claims (repo evt) key' = Inl err' \<longrightarrow>
               parseCommitAuthenticated env evt fcs fds False =
                 ([ResolveAtprotoKey (repo evt) False, VerifyProofs key,
                   ResolveAtprotoKey (repo evt) True, VerifyProofs key'], Inl err'))) \<and>
         (\<not> isRepoVerificationError err \<longrightarrow>
            parseCommitAuthenticated env evt fcs fds False =
              ([ResolveAtprotoKey (repo evt) False, VerifyProofs key], Inl err)) \<and>
         (\<forall>opts e. \<not> excludeCommit opts \<and> \<not> unauthenticatedCommits opts \<and>
              fcs = (case filterCollections opts of None \<Rightarrow> [] | Some l \<Rightarrow> l) \<and>
              fds = (case filterDids opts of None \<Rightarrow> [] | Some l \<Rightarrow> l) \<and>
              snd (parseCommitAuthenticated env evt fcs fds False) = Inl e \<longrightarrow>
              parseEvt env opts (IsCommit evt) =
                (fst (parseCommitAuthenticated env evt fcs fds False)
                   @ [OnError (FirehoseParseError e (IsCommit evt))], []))"
proof -
  let ?retry = "parseCommitAuthenticated env evt fcs fds True"
  have once: "\<exists>rest. fst ?retry = ResolveAtprotoKey (repo evt) True # rest \<and>
                (rest = [] \<or> (\<exists>k. rest = [VerifyProofs k]))"
  proof (cases "resolveAtprotoKey env (repo evt) True")
    case (Inl e)
    then show ?thesis
      using parseCommitAuthenticated_nokey [OF filt ne claims Inl] by simp
  next
    case (Inr key')
    show ?thesis
    proof (cases "verifyProofs env (blocks evt) claims (repo evt) key'")
      case (Inl err')
      then show ?thesis
        using parseCommitAuthenticated_fails [OF filt ne claims Inr Inl] by simp
    next
      case (Inr verified)
      then show ?thesis
        using parseCommitAuthenticated_verified [OF filt ne claims \<open>resolveAtprotoKey env (repo evt) True = Inr key'\<close> Inr]
        by simp
    qed
  qed
  have first: "parseCommitAuthenticated env evt fcs fds False =
              ([ResolveAtprotoKey (repo evt) False, VerifyProofs key] @ fst ?retry, snd ?retry)"
    if "isRepoVerificationError err"
    using parseCommitAuthenticated_retry [OF filt ne claims key fail that] .
  have again: "parseCommitAuthenticated env evt fcs fds False =
                 ([ResolveAtprotoKey (repo evt) False, VerifyProofs key,
                   ResolveAtprotoKey (repo evt) True, VerifyProofs key'], Inl err')"
    if "isRepoVerificationError err"
      and k': "resolveAtprotoKey env (repo evt) True = Inr key'"
      and f': "verifyProofs env (blocks evt) claims (repo evt) key' = Inl err'"
    for key' err'
    using first [OF that(1)] parseCommitAuthenticated_fails [OF filt ne claims k' f']
    by simp
  have other: "parseCommitAuthenticated env evt fcs fds False =
              ([ResolveAtprotoKey (repo evt) False, VerifyProofs key], Inl err)"
    if "\<not> isRepoVerificationError err"
    using parseCommitAuthenticated_fails [OF filt ne claims key fail] that by simp
  have rep: "parseEvt env opts (IsCommit evt) =
                (fst (parseCommitAuthenticated env evt fcs fds False)
                   @ [OnError (FirehoseParseError e (IsCommit evt))], [])"
    if "\<not> excludeCommit opts \<and> \<not> unauthenticatedCommits opts \<and>
              fcs = (case filterCollections opts of None \<Rightarrow> [] | Some l \<Rightarrow> l) \<and>
              fds = (case filterDids opts of None \<Rightarrow> [] | Some l \<Rightarrow> l) \<and>
              snd (parseCommitAuthenticated env evt fcs fds False) = Inl e"
    for opts :: "'e IngesterOptions" and e
    using that parseEvt_commit_error [of opts fcs fds env evt e] by blast
  show ?thesis using once first again other rep by blast
qed

theorem stale_key_retry_once_witness:
  "maybeFilterOps ex_collab
     (ex_commit ''did:plc:forged'' ''car1'' [ex_op ''create'' ''app.post/1'' (Some ''cidA'')])
     [] [] = Inr [ex_op ''create'' ''app.post/1'' (Some ''cidA'')] \<and>
   verifyProofs ex_collab ''car1''
     [\<lparr> claim_collection = ''app.post'', claim_rkey = ''1'', claim_cid = Some ''cidA'' \<rparr>]
     ''did:plc:forged'' ''k0''
     = Inl (RepoVerificationError ''Invalid signature on commit'') \<and>
   parseCommitAuthenticated ex_collab
     (ex_commit ''did:plc:forged'' ''car1'' [ex_op ''create'' ''app.post/1'' (Some ''cidA'')])
     [] [] False
   = ([ResolveAtprotoKey ''did:plc:forged'' False, VerifyProofs ''k0'',
       ResolveAtprotoKey ''did:plc:forged'' True, VerifyProofs ''k1''],
      Inl (RepoVerificationError ''Invalid signature on commit''))"
proof -
  let ?o = "ex_op ''create'' ''app.post/1'' (Some ''cidA'')"
  let ?e = "ex_commit ''did:plc:forged'' ''car1'' [?o]"
  let ?c = "\<lparr> claim_collection = ''app.post'', claim_rkey = ''1'',
              claim_cid = Some ''cidA'' \<rparr>"
  let ?err = "RepoVerificationError ''Invalid signature on commit''"
  have h1: "maybeFilterOps ex_collab ?e [] [] = Inr [?o]"
    by (simp add: maybeFilterOps_def ex_collab_def ex_commit_def ex_op_def
        ex_parseDataKey_def passesFilter_def)
  have h2: "[?o] \<noteq> []" by simp
  have h3: "claimsOf ex_collab [?o] = Inr [?c]"
    by (simp add: ex_collab_def ex_op_def ex_parseDataKey_def)
  have h4: "resolveAtprotoKey ex_collab (repo ?e) False = Inr ''k0''"
    by (simp add: ex_collab_def)
  have h5: "verifyProofs ex_collab (blocks ?e) [?c] (repo ?e) ''k0'' = Inl ?err"
    by (simp add: ex_collab_def ex_commit_def ex_verifyProofs_def ex_readCar_def)
  have k1: "resolveAtprotoKey ex_collab (repo ?e) True = Inr ''k1''"
    by (simp add: ex_collab_def)
  have f1: "verifyProofs ex_collab (blocks ?e) [?c] (repo ?e) ''k1'' = Inl ?err"
    by (simp add: ex_collab_def ex_commit_def ex_verifyProofs_def ex_readCar_def)
  have b: "blocks ?e = ''car1''" "repo ?e = ''did:plc:forged''"
    by (simp_all add: ex_commit_def)
  note c = stale_key_retry_once [OF h1 h2 h3 h4 h5]
  have r: "isRepoVerificationError ?err" by simp
  from c r have "\<forall>key' err'.
               resolveAtprotoKey ex_collab (repo ?e) True = Inr key' \<and>
               verifyProofs ex_collab (blocks ?e) [?c] (repo ?e) key' = Inl err' \<longrightarrow>
               parseCommitAuthenticated ex_collab ?e [] [] False =
                 ([ResolveAtprotoKey (repo ?e) False, VerifyProofs ''k0'',
                   ResolveAtprotoKey (repo ?e) True, VerifyProofs key'], Inl err')"
    by blast
  then have "parseCommitAuthenticated ex_collab ?e [] [] False =
          ([ResolveAtprotoKey (repo ?e) False, VerifyProofs ''k0'',
            ResolveAtprotoKey (repo ?e) True, VerifyProofs ''k1''], Inl ?err)"
    using k1 f1 by blast
  then show ?thesis using h1 h5 b by simp
qed

section \<open>Operations without a record\<close>





section \<open>Properties of the query-parameter encoding\<close>

lemma foldl_params_append:
  "foldl (\<lambda>ps enc. params_append ps key enc) params encs = params @ map (Pair key) encs"
  by (induction encs arbitrary: params) (simp_all add: params_append_def)

lemma encodeEntries_jetstream_skip:
  "encodeEntries_jetstream rt params
      (filter (\<lambda>kv. snd kv \<noteq> VUndefined \<and> snd kv \<noteq> VNull) obj)
     = encodeEntries_jetstream rt params obj"
proof (induction obj arbitrary: params)
  case Nil
  then show ?case by simp
next
  case (Cons kv obj)
  obtain k v where kv: "kv = (k, v)" by (cases kv)
  show ?case
  proof (cases "v = VUndefined \<or> v = VNull")
    case True
    then show ?thesis using Cons.IH kv by auto
  next
    case False
    then show ?thesis using Cons.IH kv
      by (simp split: sum.splits encoded.splits)
  qed
qed

lemma other_value_raises:
  assumes "typeof w \<notin> set [''string'', ''number'', ''boolean'', ''undefined'']"
    and "w \<noteq> VNull" and "\<forall>d. w \<noteq> VDate d" and "\<forall>xs. w \<noteq> VArray xs"
  shows "encodeQueryParam rt w = Inl (cannotEncode w)"
  using assms by (cases w) simp_all

lemma encodeEntries_raises:
  "(key, w) \<in> set obj \<Longrightarrow> encodeQueryParam rt w = Inl e0
     \<Longrightarrow> \<exists>e. encodeEntries rt params obj = Inl e"
proof (induction obj arbitrary: params)
  case Nil
  then show ?case by simp
next
  case (Cons kv obj)
  obtain k v where kv: "kv = (k, v)" by (cases kv)
  show ?case
  proof (cases "kv = (key, w)")
    case True
    then show ?thesis using Cons.prems(2) by simp
  next
    case False
    then have "(key, w) \<in> set obj" using Cons.prems(1) by simp
    then have "\<And>ps. \<exists>e. encodeEntries rt ps obj = Inl e"
      using Cons.IH Cons.prems(2) by blast
    then show ?thesis using kv
      by (simp split: sum.splits encoded.splits)
  qed
qed

lemma encodeEntries_jetstream_raises:
  "(key, w) \<in> set obj \<Longrightarrow> encodeQueryParam rt w = Inl e0
     \<Longrightarrow> \<exists>e. encodeEntries_jetstream rt params obj = Inl e"
proof (induction obj arbitrary: params)
  case Nil
  then show ?case by simp
next
  case (Cons kv obj)
  obtain k v where kv: "kv = (k, v)" by (cases kv)
  show ?case
  proof (cases "kv = (key, w)")
    case True
    then show ?thesis using Cons.prems(2) by simp
  next
    case False
    then have "(key, w) \<in> set obj" using Cons.prems(1) by simp
    then have "\<And>ps. \<exists>e. encodeEntries_jetstream rt ps obj = Inl e"
      using Cons.IH Cons.prems(2) by blast
    then show ?thesis using kv
      by (simp split: sum.splits encoded.splits)
  qed
qed

text \<open>In the Firehose module a parameter that is undefined keeps its key, with an
  empty value.\<close>

lemma encodeEntries_undefined_kept:
  "encodeEntries rt params ((key, VUndefined) # rest)
     = encodeEntries rt (params_set params key []) rest"
  by simp

text \<open>
  C5, as the code has it. In both modules a string encodes as itself, a number as
  its \<^verbatim>\<open>toString\<close>, a boolean as \<^verbatim>\<open>true\<close> or \<^verbatim>\<open>false\<close>, undefined and null as the
  empty string, a valid date as its ISO string; an array whose elements encode to the
  strings \<open>ss\<close> adds one pair of the same key for each of them; and a value of any
  other kind makes \<^verbatim>\<open>encodeQueryParam\<close>, and with it \<^verbatim>\<open>encodeQueryParams\<close> of any
  object holding it, throw. In the Jetstream module the query string of an object
  is that of the object without its undefined and null entries: their keys are left
  out.
\<close>

theorem encodeQueryParam_rules:
  assumes arr: "flatMapEncode rt vs = Inr ss"
    and other: "typeof w \<notin> set [''string'', ''number'', ''boolean'', ''undefined'']"
      "w \<noteq> VNull" "\<forall>d. w \<noteq> VDate d" "\<forall>xs. w \<noteq> VArray xs"
    and mem: "(key, w) \<in> set held"
  shows "encodeQueryParam rt (VString s) = Inr (One s) \<and>
         encodeQueryParam rt (VNumber n) = Inr (One (numberToString rt n)) \<and>
         encodeQueryParam rt (VBoolean True) = Inr (One ''true'') \<and>
         encodeQueryParam rt (VBoolean False) = Inr (One ''false'') \<and>
         encodeQueryParam rt VUndefined = Inr (One []) \<and>
         encodeQueryParam rt VNull = Inr (One []) \<and>
         encodeQueryParams_jetstream rt
             (filter (\<lambda>kv. snd kv \<noteq> VUndefined \<and> snd kv \<noteq> VNull) obj)
           = encodeQueryParams_jetstream rt obj \<and>
         encodeQueryParam rt (VDate (Date t)) = Inr (One (toISOString rt t)) \<and>
         encodeQueryParam rt (VArray vs) = Inr (Many ss) \<and>
         encodeEntries rt params ((k, VArray vs) # rest)
           = encodeEntries rt (params @ map (Pair k) ss) rest \<and>
         encodeEntries_jetstream rt params ((k, VArray vs) # rest)
           = encodeEntries_jetstream rt (params @ map (Pair k) ss) rest \<and>
         encodeQueryParam rt w = Inl (cannotEncode w) \<and>
         (\<exists>e. encodeQueryParams rt held = Inl e) \<and>
         (\<exists>e. encodeQueryParams_jetstream rt held = Inl e)"
proof -
  have skip: "encodeQueryParams_jetstream rt
             (filter (\<lambda>kv. snd kv \<noteq> VUndefined \<and> snd kv \<noteq> VNull) obj)
           = encodeQueryParams_jetstream rt obj"
    by (simp add: encodeQueryParams_jetstream_def encodeEntries_jetstream_skip)
  have a1: "encodeQueryParam rt (VArray vs) = Inr (Many ss)"
    using arr by simp
  have a2: "encodeEntries rt params ((k, VArray vs) # rest)
           = encodeEntries rt (params @ map (Pair k) ss) rest"
    using arr by (simp add: foldl_params_append)
  have a3: "encodeEntries_jetstream rt params ((k, VArray vs) # rest)
           = encodeEntries_jetstream rt (params @ map (Pair k) ss) rest"
    using arr by (simp add: foldl_params_append)
  have r1: "encodeQueryParam rt w = Inl (cannotEncode w)"
    using other by (rule other_value_raises)
  have r2: "\<exists>e. encodeQueryParams rt held = Inl e"
    using encodeEntries_raises [OF mem r1, of "[]"]
    by (auto simp: encodeQueryParams_def)
  have r3: "\<exists>e. encodeQueryParams_jetstream rt held = Inl e"
    using encodeEntries_jetstream_raises [OF mem r1, of "[]"]
    by (auto simp: encodeQueryParams_jetstream_def)
  show ?thesis using skip a1 a2 a3 r1 r2 r3 by simp
qed

theorem encodeQueryParam_rules_witness:
  "flatMapEncode ex_rt [VString ''a'', VString ''b''] = Inr [''a'', ''b''] \<and>
   typeof VFunction \<notin> set [''string'', ''number'', ''boolean'', ''undefined''] \<and>
   (''f'', VFunction) \<in> set [(''cursor'', VNumber 42), (''f'', VFunction)] \<and>
   encodeQueryParam ex_rt (VArray [VString ''a'', VString ''b'']) = Inr (Many [''a'', ''b'']) \<and>
   encodeQueryParam ex_rt VFunction = Inl (cannotEncode VFunction) \<and>
   (\<exists>e. encodeQueryParams ex_rt [(''cursor'', VNumber 42), (''f'', VFunction)] = Inl e)"
proof -
  have h1: "flatMapEncode ex_rt [VString ''a'', VString ''b''] = Inr [''a'', ''b'']"
    by simp
  have h2: "typeof VFunction \<notin> set [''string'', ''number'', ''boolean'', ''undefined'']"
    by simp
  have h3: "VFunction \<noteq> VNull" "\<forall>d. VFunction \<noteq> VDate d" "\<forall>xs. VFunction \<noteq> VArray xs"
    by simp_all
  have h4: "(''f'', VFunction) \<in> set [(''cursor'', VNumber 42), (''f'', VFunction)]"
    by simp
  note c = encodeQueryParam_rules [OF h1 h2 h3 h4]
  show ?thesis using h1 h2 h4 c by blast
qed

text \<open>
  Two cases against the specification's wording: in the Firehose module an
  undefined parameter is
  not left out of the query string (the subscription URL then ends in \<^verbatim>\<open>cursor=\<close>),
  and \<^verbatim>\<open>null\<close>, whose \<^verbatim>\<open>typeof\<close> is \<^verbatim>\<open>object\<close>, encodes as the empty string instead
  of throwing.
\<close>

theorem encodeQueryParams_undefined_counterexample:
  "encodeQueryParams ex_rt [(''cursor'', VUndefined)] = Inr ''cursor='' \<and>
   encodeQueryParams_jetstream ex_rt [(''cursor'', VUndefined)] = Inr [] \<and>
   typeof VNull = ''object'' \<and>
   encodeQueryParam ex_rt VNull = Inr (One [])"
  by (simp add: encodeQueryParams_def encodeQueryParams_jetstream_def ex_rt_def)

section \<open>Properties of dispatch and supervision\<close>

lemma unreported_Nil [simp]: "unreported [] = []"
  by (simp add: unreported_def)

lemma unreported_Cons [simp]:
  "unreported (x # xs) = (if isHandlerError x then unreported xs else x # unreported xs)"
  by (simp add: unreported_def)

lemma unreported_append [simp]: "unreported (xs @ ys) = unreported xs @ unreported ys"
  by (simp add: unreported_def)

lemma unreported_id: "(\<And>e. e \<in> set xs \<Longrightarrow> \<not> isHandlerError e) \<Longrightarrow> unreported xs = xs"
  by (induction xs) (auto simp: unreported_def)

lemma parseCommitAuthenticated_retry_effects:
  "e \<in> set (fst (parseCommitAuthenticated env evt fc fd True)) \<Longrightarrow> \<not> isHandlerError e"
  by (subst (asm) parseCommitAuthenticated.simps)
     (auto simp: Let_def split: sum.splits if_splits)

lemma parseCommitAuthenticated_effects:
  "e \<in> set (fst (parseCommitAuthenticated env evt fc fd force)) \<Longrightarrow> \<not> isHandlerError e"
  by (subst (asm) parseCommitAuthenticated.simps)
     (auto simp: Let_def split: sum.splits if_splits
        dest: parseCommitAuthenticated_retry_effects)

lemma parseEvt_quiet: "parseEvt env (quiet opts) evt = parseEvt env opts evt"
  by (cases evt) (simp_all add: parseEvt_def parseEvt_try_def quiet_def Let_def)

lemma parseEvt_effects:
  "e \<in> set (fst (parseEvt env opts evt)) \<Longrightarrow> \<not> isHandlerError e"
  by (auto simp: parseEvt_def parseEvt_try_def Let_def
      split: RepoEvent.splits if_splits sum.splits prod.splits
      dest: parseCommitAuthenticated_effects)

lemma handleWrites_quiet:
  "unreported (handleWrites opts ws) = handleWrites (quiet opts) ws"
  by (induction ws) (auto simp: unreported_def quiet_def split: option.splits)

lemma processEvt_quiet:
  "unreported (processEvt env opts evt) = processEvt env (quiet opts) evt"
proof -
  obtain effs parsed where p: "parseEvt env opts evt = (effs, parsed)"
    by (cases "parseEvt env opts evt")
  have "unreported effs = effs"
    using parseEvt_effects [of _ env opts evt] p by (intro unreported_id) simp
  then show ?thesis
    by (simp add: processEvt_def parseEvt_quiet p handleWrites_quiet)
qed

lemma getUrl_quiet: "getUrl rt (quiet opts) n = getUrl rt opts n"
  by (simp add: getUrl_def getParams_def cursorSource_def quiet_def split: option.splits)

lemma getUrl_effects:
  "getUrl rt opts n = (n', effs, url) \<Longrightarrow> unreported effs = effs"
  by (auto simp: getUrl_def getParams_def unreported_def Let_def
      split: option.splits sum.splits)

lemma validate_effects: "validate w v = (veffs, r) \<Longrightarrow> unreported veffs = veffs"
  by (auto simp: validate_def unreported_def split: sum.splits)

lemma start_body_quiet:
  "unreported (start_body env opts evt) = start_body env (quiet opts) evt"
proof (cases "runner opts")
  case None
  then show ?thesis by (simp add: start_body_def processEvt_quiet quiet_def)
next
  case (Some g)
  then show ?thesis
    by (auto simp: start_body_def quiet_def unreported_def split: option.splits)
qed

lemma frames_quiet:
  "frames w env rt (quiet opts) n steps =
     (case frames w env rt opts n steps of
        (n', effs, thrown) \<Rightarrow> (n', unreported effs, thrown))"
proof (induction steps arbitrary: n)
  case Nil
  then show ?case by (simp add: unreported_def)
next
  case (Cons s rest)
  show ?case
  proof (cases s)
    case Connect
    obtain n1 effs1 url where g: "getUrl rt opts n = (n1, effs1, url)"
      by (cases "getUrl rt opts n")
    then show ?thesis
      using Connect Cons.IH [of n1] getUrl_effects [OF g]
      by (simp add: getUrl_quiet split: prod.splits)
  next
    case (Chunk c)
    show ?thesis
    proof (cases "ensureChunkIsMessage w c")
      case (Inl e)
      then show ?thesis using Chunk by (simp add: unreported_def)
    next
      case (Inr m)
      obtain veffs r where v: "validate w (cloneOf m) = (veffs, r)"
        by (cases "validate w (cloneOf m)")
      show ?thesis
        using Chunk Inr v Cons.IH [of n] validate_effects [OF v]
        by (simp add: start_body_quiet split: prod.splits option.splits)
    qed
  qed
qed

lemma reconnectDelay_quiet: "reconnectDelay (quiet opts) = reconnectDelay opts"
  by (simp add: reconnectDelay_def quiet_def)

lemma start_quiet:
  "start w env rt (quiet opts) n script =
     (unreported (fst (start w env rt opts n script)), snd (start w env rt opts n script))"
proof (induction script arbitrary: n)
  case Nil
  then show ?case by (simp add: unreported_def)
next
  case (Cons s later)
  obtain steps ending where s: "s = (steps, ending)" by (cases s)
  obtain n' effs thrown where f: "frames w env rt opts n steps = (n', effs, thrown)"
    by (cases "frames w env rt opts n steps") auto
  have q: "frames w env rt (quiet opts) n steps = (n', unreported effs, thrown)"
    by (simp add: frames_quiet f)
  have u: "unreported [DestroyDeferResolve] = [DestroyDeferResolve]"
    "\<And>err d. unreported [OnError (FirehoseSubscriptionError err), Wait d]
       = [OnError (FirehoseSubscriptionError err), Wait d]"
    by (simp_all add: unreported_def)
  show ?case
    using Cons.IH [of n'] u
    by (simp add: s f q reconnectDelay_quiet
        split: ending.splits option.splits prod.splits)
qed

lemma handleEvent_quiet [simp]: "handleEvent (quiet opts) x = None"
  by (simp add: quiet_def)

lemma Jetstream_parseEvt_quiet:
  "Jetstream_parseEvt env (quiet opts) evt = Jetstream_parseEvt env opts evt"
  by (cases evt) (simp_all add: Jetstream_parseEvt_def Jetstream_parseEvt_try_def quiet_def)

lemma Jetstream_parseEvt_effects:
  "Jetstream_parseEvt env opts evt = (effs, parsed) \<Longrightarrow> unreported effs = effs"
  by (auto simp: Jetstream_parseEvt_def split: sum.splits)

lemma Jetstream_processEvt_quiet:
  "unreported (Jetstream_processEvt env opts evt) = Jetstream_processEvt env (quiet opts) evt"
proof -
  obtain effs parsed where p: "Jetstream_parseEvt env opts evt = (effs, parsed)"
    by (cases "Jetstream_parseEvt env opts evt")
  have "unreported effs = effs"
    using p by (rule Jetstream_parseEvt_effects)
  then show ?thesis
    by (cases parsed)
       (auto simp: Jetstream_processEvt_def Jetstream_parseEvt_quiet p
          split: option.splits)
qed

lemma Jetstream_start_body_quiet:
  "unreported (Jetstream_start_body env opts evt) = Jetstream_start_body env (quiet opts) evt"
proof (cases "runner opts")
  case None
  then show ?thesis
    by (simp add: Jetstream_start_body_def Jetstream_processEvt_quiet quiet_def)
next
  case (Some g)
  then show ?thesis
    by (simp add: Jetstream_start_body_def quiet_def)
qed

lemma Jetstream_getUrl_quiet: "Jetstream_getUrl rt (quiet opts) n = Jetstream_getUrl rt opts n"
  by (simp add: Jetstream_getUrl_def Jetstream_getParams_def cursorSource_def quiet_def
      Let_def split: option.splits)

lemma Jetstream_getUrl_effects:
  "Jetstream_getUrl rt opts n = (n', effs, url) \<Longrightarrow> unreported effs = effs"
  by (auto simp: Jetstream_getUrl_def Jetstream_getParams_def Let_def
      split: option.splits sum.splits)

lemma Jetstream_decode_quiet:
  "Jetstream_decode w (quiet opts) dict chunk = Jetstream_decode w opts dict chunk"
  by (simp add: Jetstream_decode_def quiet_def)

lemma Jetstream_frames_quiet:
  "Jetstream_frames w env rt (quiet opts) dict n steps =
     (case Jetstream_frames w env rt opts dict n steps of
        (n', effs) \<Rightarrow> (n', unreported effs))"
proof (induction steps arbitrary: n)
  case Nil
  then show ?case by simp
next
  case (Cons s rest)
  show ?case
  proof (cases s)
    case Connect
    obtain n1 effs1 url where g: "Jetstream_getUrl rt opts n = (n1, effs1, url)"
      by (cases "Jetstream_getUrl rt opts n")
    then show ?thesis
      using Connect Cons.IH [of n1] Jetstream_getUrl_effects [OF g]
      by (simp add: Jetstream_getUrl_quiet split: prod.splits)
  next
    case (Chunk c)
    show ?thesis
      using Chunk Cons.IH [of n]
      by (simp add: Jetstream_decode_quiet Jetstream_start_body_quiet
          split: prod.splits sum.splits)
  qed
qed

lemma Jetstream_start_quiet:
  "Jetstream_start w env rt (quiet opts) n script =
     (unreported (fst (Jetstream_start w env rt opts n script)),
      snd (Jetstream_start w env rt opts n script))"
proof (induction script arbitrary: n)
  case Nil
  then show ?case by simp
next
  case (Cons s later)
  obtain fetched steps ending where s: "s = (fetched, steps, ending)" by (cases s)
  show ?case
  proof (cases fetched)
    case (Inl e)
    then show ?thesis
      using Cons.IH [of n]
      by (simp add: s reconnectDelay_quiet split: prod.splits)
  next
    case (Inr dict)
    obtain n' effs where f: "Jetstream_frames w env rt opts dict n steps = (n', effs)"
      by (cases "Jetstream_frames w env rt opts dict n steps")
    have q: "Jetstream_frames w env rt (quiet opts) dict n steps = (n', unreported effs)"
      by (simp add: Jetstream_frames_quiet f)
    show ?thesis
      using Cons.IH [of n']
      by (simp add: s Inr f q reconnectDelay_quiet split: ending.splits prod.splits)
  qed
qed

lemma Turbostream_parseEvt_quiet:
  "Turbostream_parseEvt env (quiet opts) evt = Turbostream_parseEvt env opts evt"
  by (simp add: Turbostream_parseEvt_def quiet_def)

lemma Turbostream_parseEvt_effects:
  "Turbostream_parseEvt env opts evt = (effs, parsed) \<Longrightarrow> unreported effs = effs"
  by (auto simp: Turbostream_parseEvt_def split: sum.splits if_splits)

lemma Turbostream_processEvt_quiet:
  "unreported (Turbostream_processEvt env opts evt) = Turbostream_processEvt env (quiet opts) evt"
proof -
  obtain effs parsed where p: "Turbostream_parseEvt env opts evt = (effs, parsed)"
    by (cases "Turbostream_parseEvt env opts evt")
  have "unreported effs = effs"
    using p by (rule Turbostream_parseEvt_effects)
  then show ?thesis
    by (cases parsed)
       (auto simp: Turbostream_processEvt_def Turbostream_parseEvt_quiet p
          split: option.splits)
qed

lemma Turbostream_frames_quiet:
  "Turbostream_frames w env (quiet opts) steps = unreported (Turbostream_frames w env opts steps)"
proof (induction steps)
  case Nil
  then show ?case by simp
next
  case (Cons s rest)
  show ?case
  proof (cases s)
    case Connect
    then show ?thesis using Cons.IH
      by (simp add: Turbostream_getUrl_def quiet_def Let_def)
  next
    case (Chunk c)
    then show ?thesis using Cons.IH
      by (simp add: Turbostream_processEvt_quiet split: sum.splits)
  qed
qed

lemma Turbostream_start_quiet:
  "Turbostream_start w env (quiet opts) script =
     (unreported (fst (Turbostream_start w env opts script)),
      snd (Turbostream_start w env opts script))"
proof (induction script)
  case Nil
  then show ?case by simp
next
  case (Cons s later)
  obtain steps ending where s: "s = (steps, ending)" by (cases s)
  show ?case
    using Cons.IH
    by (simp add: s Turbostream_frames_quiet reconnectDelay_quiet
        split: ending.splits prod.splits)
qed

lemma handleWrites_concat:
  "handleWrites opts ws =
     concat (map (\<lambda>write. HandleEvent write #
                   (case handleEvent opts write of
                      None \<Rightarrow> []
                    | Some err \<Rightarrow> [OnError (FirehoseHandlerError err write)])) ws)"
  by (induction ws) (auto split: option.splits)

lemma encodeQueryParams_cursor:
  "encodeQueryParams rt [(''cursor'', cursorValue c)] =
     Inr (formEncode rt ''cursor'' @ ''='' @
          formEncode rt (case c of None \<Rightarrow> [] | Some k \<Rightarrow> numberToString rt k))"
  by (cases c) (simp_all add: encodeQueryParams_def cursorValue_def)

lemma getUrl_invokes:
  assumes "cursorSource opts = Some g"
  shows "getUrl rt opts k =
           (Suc k,
            [GetCursor k,
             OnInfo (''Firehose: '' @
                     (case service opts of None \<Rightarrow> ''wss://bsky.network'' | Some s \<Rightarrow> s) @
                     ''/xrpc/com.atproto.sync.subscribeRepos?'' @
                     formEncode rt ''cursor'' @ ''='' @
                     formEncode rt (case g k of None \<Rightarrow> [] | Some c \<Rightarrow> numberToString rt c))],
            Inr ((case service opts of None \<Rightarrow> ''wss://bsky.network'' | Some s \<Rightarrow> s) @
                     ''/xrpc/com.atproto.sync.subscribeRepos?'' @
                     formEncode rt ''cursor'' @ ''='' @
                     formEncode rt (case g k of None \<Rightarrow> [] | Some c \<Rightarrow> numberToString rt c)))"
  using assms
  by (simp add: getUrl_def getParams_def encodeQueryParams_cursor Let_def)

lemma start_Connect_head:
  assumes "cursorSource opts = Some g"
  shows "\<exists>rest. fst (start w env rt opts k ((Connect # steps2, ending2) # later2)) =
           GetCursor k #
           OnInfo (''Firehose: '' @
                   (case service opts of None \<Rightarrow> ''wss://bsky.network'' | Some s \<Rightarrow> s) @
                   ''/xrpc/com.atproto.sync.subscribeRepos?'' @
                   formEncode rt ''cursor'' @ ''='' @
                   formEncode rt (case g k of None \<Rightarrow> [] | Some c \<Rightarrow> numberToString rt c))
           # rest"
  by (simp add: getUrl_invokes [OF assms]
      split: prod.splits ending.splits option.splits)

lemma Jetstream_getParams_invokes:
  assumes "cursorSource opts = Some g"
  shows "fst (Jetstream_getParams opts k) = Suc k \<and>
         fst (snd (Jetstream_getParams opts k)) = [GetCursor k] \<and>
         (''cursor'', cursorValue (g k)) \<in> set (snd (snd (Jetstream_getParams opts k)))"
  using assms by (simp add: Jetstream_getParams_def Let_def)

lemma Jetstream_start_Connect_head:
  assumes "cursorSource opts = Some g"
  shows "\<exists>rest. fst (Jetstream_start w env rt opts k
                       ((Inr dict2, Connect # steps2, ending2) # later2)) = GetCursor k # rest"
proof -
  have "\<exists>k' tl url. Jetstream_getUrl rt opts k = (k', GetCursor k # tl, url)"
    using assms
    by (simp add: Jetstream_getUrl_def Jetstream_getParams_def Let_def split: sum.split)
  then obtain k' tl url where g: "Jetstream_getUrl rt opts k = (k', GetCursor k # tl, url)"
    by blast
  obtain k'' effs where f: "Jetstream_frames w env rt opts dict2 k' steps2 = (k'', effs)"
    by (cases "Jetstream_frames w env rt opts dict2 k' steps2")
  show ?thesis
    by (auto simp: g f split: prod.splits ending.splits)
qed

text \<open>
  C6. When an iteration over the subscription ends with an error that is not an
  \<^verbatim>\<open>AbortError\<close>, \<^verbatim>\<open>start\<close> reports it as a subscription error, waits the
  configured delay (3000 when none is configured), and starts over: the run continues
  with the next iteration. When the transport then opens a connection, the cursor
  source is invoked again (the invocation counted \<open>n'\<close>, after all earlier ones), and
  the URL announced for the Firehose carries the answer of that invocation. The same
  holds for the Jetstream, whose parameters hold the answer under \<^verbatim>\<open>cursor\<close>, and
  there also when it is the fetch of the dictionary that throws.
\<close>

theorem reconnect_reinvokes_cursor:
  assumes fr: "frames w env rt opts n steps = (n', effs, thrown)"
    and th: "(case thrown of Some e \<Rightarrow> Throws e | None \<Rightarrow> ending) = Throws err"
    and na: "\<not> isAbortError err"
    and jfr: "Jetstream_frames w env rt jopts dict m jsteps = (m', jeffs)"
    and jna: "\<not> isAbortError jerr"
  shows "start w env rt opts n ((steps, ending) # later) =
           (effs @ [OnError (FirehoseSubscriptionError err),
                    Wait (case subscriptionReconnectDelay opts of None \<Rightarrow> 3000 | Some d \<Rightarrow> d)]
              @ fst (start w env rt opts n' later),
            snd (start w env rt opts n' later)) \<and>
         (\<forall>g steps2 ending2 later2. cursorSource opts = Some g \<longrightarrow>
            (\<exists>rest. fst (start w env rt opts n' ((Connect # steps2, ending2) # later2)) =
               GetCursor n' #
               OnInfo (''Firehose: '' @
                   (case service opts of None \<Rightarrow> ''wss://bsky.network'' | Some s \<Rightarrow> s) @
                   ''/xrpc/com.atproto.sync.subscribeRepos?'' @
                   formEncode rt ''cursor'' @ ''='' @
                   formEncode rt (case g n' of None \<Rightarrow> [] | Some c \<Rightarrow> numberToString rt c))
               # rest)) \<and>
         Jetstream_start w env rt jopts m ((Inr dict, jsteps, Throws jerr) # jlater) =
           (jeffs @ [OnError (JetstreamSubscriptionError jerr),
                     Wait (case subscriptionReconnectDelay jopts of None \<Rightarrow> 3000 | Some d \<Rightarrow> d)]
              @ fst (Jetstream_start w env rt jopts m' jlater),
            snd (Jetstream_start w env rt jopts m' jlater)) \<and>
         Jetstream_start w env rt jopts m ((Inl jerr, jsteps, jending) # jlater) =
           ([OnError (JetstreamSubscriptionError jerr),
             Wait (case subscriptionReconnectDelay jopts of None \<Rightarrow> 3000 | Some d \<Rightarrow> d)]
              @ fst (Jetstream_start w env rt jopts m jlater),
            snd (Jetstream_start w env rt jopts m jlater)) \<and>
         (\<forall>g dict2 steps2 ending2 later2. cursorSource jopts = Some g \<longrightarrow>
            (\<exists>rest. fst (Jetstream_start w env rt jopts m'
                           ((Inr dict2, Connect # steps2, ending2) # later2)) =
               GetCursor m' # rest) \<and>
            (''cursor'', cursorValue (g m')) \<in> set (snd (snd (Jetstream_getParams jopts m'))))"
proof -
  have one: "start w env rt opts n ((steps, ending) # later) =
           (effs @ [OnError (FirehoseSubscriptionError err),
                    Wait (case subscriptionReconnectDelay opts of None \<Rightarrow> 3000 | Some d \<Rightarrow> d)]
              @ fst (start w env rt opts n' later),
            snd (start w env rt opts n' later))"
    using fr th na by (simp add: reconnectDelay_def split: prod.splits)
  have two: "Jetstream_start w env rt jopts m ((Inr dict, jsteps, Throws jerr) # jlater) =
           (jeffs @ [OnError (JetstreamSubscriptionError jerr),
                     Wait (case subscriptionReconnectDelay jopts of None \<Rightarrow> 3000 | Some d \<Rightarrow> d)]
              @ fst (Jetstream_start w env rt jopts m' jlater),
            snd (Jetstream_start w env rt jopts m' jlater))"
    using jfr jna by (simp add: reconnectDelay_def split: prod.splits)
  have fetch: "Jetstream_start w env rt jopts m ((Inl jerr, jsteps, jending) # jlater) =
           ([OnError (JetstreamSubscriptionError jerr),
             Wait (case subscriptionReconnectDelay jopts of None \<Rightarrow> 3000 | Some d \<Rightarrow> d)]
              @ fst (Jetstream_start w env rt jopts m jlater),
            snd (Jetstream_start w env rt jopts m jlater))"
    using jna by (simp add: reconnectDelay_def split: prod.splits)
  have three: "\<exists>rest. fst (start w env rt opts n' ((Connect # steps2, ending2) # later2)) =
               GetCursor n' #
               OnInfo (''Firehose: '' @
                   (case service opts of None \<Rightarrow> ''wss://bsky.network'' | Some s \<Rightarrow> s) @
                   ''/xrpc/com.atproto.sync.subscribeRepos?'' @
                   formEncode rt ''cursor'' @ ''='' @
                   formEncode rt (case g n' of None \<Rightarrow> [] | Some c \<Rightarrow> numberToString rt c))
               # rest"
    if "cursorSource opts = Some g" for g steps2 ending2 later2
    using that by (rule start_Connect_head)
  have four: "(\<exists>rest. fst (Jetstream_start w env rt jopts m'
                           ((Inr dict2, Connect # steps2, ending2) # later2)) =
               GetCursor m' # rest) \<and>
            (''cursor'', cursorValue (g m')) \<in> set (snd (snd (Jetstream_getParams jopts m')))"
    if "cursorSource jopts = Some g" for g dict2 steps2 ending2 later2
    using Jetstream_start_Connect_head [OF that] Jetstream_getParams_invokes [OF that]
    by simp
  show ?thesis
    apply (intro conjI allI impI)
         apply (rule one)
        apply (erule three)
       apply (rule two)
      apply (rule fetch)
    using four apply blast
   using four apply blast
  done
qed

theorem reconnect_reinvokes_cursor_witness:
  "frames ex_wire ex_collab ex_rt ex_opts 0 [Connect, Chunk ''cut''] =
     (1, [GetCursor 0,
          OnInfo ''Firehose: wss://bsky.network/xrpc/com.atproto.sync.subscribeRepos?cursor=''],
      Some (Error ''Error'' ''Unexpected end of CBOR data'')) \<and>
   \<not> isAbortError (Error ''Error'' ''Unexpected end of CBOR data'') \<and>
   start ex_wire ex_collab ex_rt ex_opts 0
     [([Connect, Chunk ''cut''], Ends),
      ([Connect], Throws (Error ''AbortError'' ''This operation was aborted''))] =
     ([GetCursor 0,
       OnInfo ''Firehose: wss://bsky.network/xrpc/com.atproto.sync.subscribeRepos?cursor='',
       OnError (FirehoseSubscriptionError (Error ''Error'' ''Unexpected end of CBOR data'')),
       Wait 3000,
       GetCursor 1,
       OnInfo ''Firehose: wss://bsky.network/xrpc/com.atproto.sync.subscribeRepos?cursor=42'',
       DestroyDeferResolve],
      Returned)"
proof -
  let ?err = "Error ''Error'' ''Unexpected end of CBOR data''"
  let ?later = "[([Connect], Throws (Error ''AbortError'' ''This operation was aborted''))]"
  have fr: "frames ex_wire ex_collab ex_rt ex_opts 0 [Connect, Chunk ''cut''] =
     (1, [GetCursor 0,
          OnInfo ''Firehose: wss://bsky.network/xrpc/com.atproto.sync.subscribeRepos?cursor=''],
      Some ?err)"
    by (simp add: getUrl_def getParams_def cursorSource_def cursorValue_def
        encodeQueryParams_def ex_opts_def ex_rt_def ex_wire_def Let_def)
  have th: "(case Some ?err of Some e \<Rightarrow> Throws e | None \<Rightarrow> Ends) = Throws ?err"
    by simp
  have na: "\<not> isAbortError ?err" by simp
  have jfr: "Jetstream_frames ex_wire ex_collab ex_rt ex_jopts ''dict'' 0 [] = (0, [])"
    by simp
  have jna: "\<not> isAbortError (Error ''Error'' ''socket closed'')" by simp
  note c = reconnect_reinvokes_cursor [OF fr th na jfr jna, of ?later "[]"]
  have l: "start ex_wire ex_collab ex_rt ex_opts 1 ?later =
             ([GetCursor 1,
               OnInfo ''Firehose: wss://bsky.network/xrpc/com.atproto.sync.subscribeRepos?cursor=42'',
               DestroyDeferResolve], Returned)"
    by (simp add: getUrl_def getParams_def cursorSource_def cursorValue_def
        encodeQueryParams_def ex_opts_def ex_rt_def Let_def)
  have d: "subscriptionReconnectDelay ex_opts = None"
    by (simp add: ex_opts_def)
  from c have "start ex_wire ex_collab ex_rt ex_opts 0 (([Connect, Chunk ''cut''], Ends) # ?later) =
           ([GetCursor 0,
             OnInfo ''Firehose: wss://bsky.network/xrpc/com.atproto.sync.subscribeRepos?cursor='']
              @ [OnError (FirehoseSubscriptionError ?err),
                 Wait (case subscriptionReconnectDelay ex_opts of None \<Rightarrow> 3000 | Some d \<Rightarrow> d)]
              @ fst (start ex_wire ex_collab ex_rt ex_opts 1 ?later),
            snd (start ex_wire ex_collab ex_rt ex_opts 1 ?later))"
    by blast
  then show ?thesis using fr na l d by simp
qed

text \<open>
  C7. When the iteration ends with the \<^verbatim>\<open>AbortError\<close> that follows \<^verbatim>\<open>destroy\<close>,
  \<^verbatim>\<open>start\<close> resolves the deferred that \<^verbatim>\<open>destroy\<close> awaits and returns. After the
  effects of the frames already read nothing else happens: no subscription error is
  reported and no delay is waited, and whatever the transport would do in a later
  iteration plays no part, since \<^verbatim>\<open>start\<close> is not entered again. The three classes
  agree in this.
\<close>

theorem stop_returns_without_reconnect:
  assumes fr: "frames w env rt opts n steps = (n', effs, thrown)"
    and th: "(case thrown of Some e \<Rightarrow> Throws e | None \<Rightarrow> ending) = Throws err"
    and ab: "isAbortError err"
    and jfr: "Jetstream_frames w env rt jopts dict m jsteps = (m', jeffs)"
  shows "start w env rt opts n ((steps, ending) # later) =
           (effs @ [DestroyDeferResolve], Returned) \<and>
         Jetstream_start w env rt jopts m ((Inr dict, jsteps, Throws err) # jlater) =
           (jeffs @ [DestroyDeferResolve], Returned) \<and>
         Turbostream_start w env topts ((tsteps, Throws err) # tlater) =
           (Turbostream_frames w env topts tsteps @ [DestroyDeferResolve], Returned)"
  using fr th ab jfr by simp

theorem stop_returns_without_reconnect_witness:
  "isAbortError (Error ''AbortError'' ''This operation was aborted'') \<and>
   start ex_wire ex_collab ex_rt ex_opts 1
     [([Connect], Throws (Error ''AbortError'' ''This operation was aborted'')),
      ([Connect, Chunk ''account''], Ends)] =
     ([GetCursor 1,
       OnInfo ''Firehose: wss://bsky.network/xrpc/com.atproto.sync.subscribeRepos?cursor=42'',
       DestroyDeferResolve],
      Returned)"
proof -
  let ?err = "Error ''AbortError'' ''This operation was aborted''"
  have fr: "frames ex_wire ex_collab ex_rt ex_opts 1 [Connect] =
     (2, [GetCursor 1,
          OnInfo ''Firehose: wss://bsky.network/xrpc/com.atproto.sync.subscribeRepos?cursor=42''],
      None)"
    by (simp add: getUrl_def getParams_def cursorSource_def cursorValue_def
        encodeQueryParams_def ex_opts_def ex_rt_def Let_def)
  have th: "(case None of Some e \<Rightarrow> Throws e | None \<Rightarrow> Throws ?err) = Throws ?err"
    by simp
  have ab: "isAbortError ?err" by simp
  have jfr: "Jetstream_frames ex_wire ex_collab ex_rt ex_jopts ''dict'' 0 [] = (0, [])"
    by simp
  note c = stop_returns_without_reconnect [OF fr th ab jfr,
      of "[([Connect, Chunk ''account''], Ends)]"]
  show ?thesis using c ab by simp
qed

text \<open>
  C8. In each class \<^verbatim>\<open>processEvt\<close> hands every parsed event to the handler, in
  order, and a throw of the handler only adds, right after the call, a report of a
  handler error with that event; the events after it are handed over all the same.
  A run of \<^verbatim>\<open>start\<close> over any behaviour of the transport differs from the run with
  a handler that never throws only by those reports: the same frames are read, the
  same events dispatched, and the run returns or goes on in the same way.
\<close>

theorem handler_failure_isolated:
  "processEvt env opts evt =
     fst (parseEvt env opts evt) @
     concat (map (\<lambda>write. HandleEvent write #
                   (case handleEvent opts write of
                      None \<Rightarrow> []
                    | Some err \<Rightarrow> [OnError (FirehoseHandlerError err write)]))
               (snd (parseEvt env opts evt))) \<and>
   Jetstream_processEvt env jopts jevt =
     fst (Jetstream_parseEvt env jopts jevt) @
     (case snd (Jetstream_parseEvt env jopts jevt) of
        None \<Rightarrow> []
      | Some parsed \<Rightarrow>
          HandleJetstreamEvent parsed #
          (case handleEvent jopts parsed of
             None \<Rightarrow> []
           | Some err \<Rightarrow> [OnError (JetstreamHandlerError err parsed)])) \<and>
   Turbostream_processEvt env topts tevt =
     fst (Turbostream_parseEvt env topts tevt) @
     (case snd (Turbostream_parseEvt env topts tevt) of
        None \<Rightarrow> []
      | Some parsed \<Rightarrow>
          HandleTurbostreamEvent parsed #
          (case handleEvent topts parsed of
             None \<Rightarrow> []
           | Some err \<Rightarrow> [OnError (TurbostreamHandlerError err parsed)])) \<and>
   start w env rt (quiet opts) n script =
     (unreported (fst (start w env rt opts n script)), snd (start w env rt opts n script)) \<and>
   Jetstream_start w env rt (quiet jopts) n jscript =
     (unreported (fst (Jetstream_start w env rt jopts n jscript)),
      snd (Jetstream_start w env rt jopts n jscript)) \<and>
   Turbostream_start w env (quiet topts) tscript =
     (unreported (fst (Turbostream_start w env topts tscript)),
      snd (Turbostream_start w env topts tscript))"
proof -
  have f: "processEvt env opts evt =
     fst (parseEvt env opts evt) @
     concat (map (\<lambda>write. HandleEvent write #
                   (case handleEvent opts write of
                      None \<Rightarrow> []
                    | Some err \<Rightarrow> [OnError (FirehoseHandlerError err write)]))
               (snd (parseEvt env opts evt)))"
    by (simp add: processEvt_def handleWrites_concat split: prod.splits)
  have j: "Jetstream_processEvt env jopts jevt =
     fst (Jetstream_parseEvt env jopts jevt) @
     (case snd (Jetstream_parseEvt env jopts jevt) of
        None \<Rightarrow> []
      | Some parsed \<Rightarrow>
          HandleJetstreamEvent parsed #
          (case handleEvent jopts parsed of
             None \<Rightarrow> []
           | Some err \<Rightarrow> [OnError (JetstreamHandlerError err parsed)]))"
    by (simp add: Jetstream_processEvt_def split: prod.splits option.splits)
  have t: "Turbostream_processEvt env topts tevt =
     fst (Turbostream_parseEvt env topts tevt) @
     (case snd (Turbostream_parseEvt env topts tevt) of
        None \<Rightarrow> []
      | Some parsed \<Rightarrow>
          HandleTurbostreamEvent parsed #
          (case handleEvent topts parsed of
             None \<Rightarrow> []
           | Some err \<Rightarrow> [OnError (TurbostreamHandlerError err parsed)]))"
    by (simp add: Turbostream_processEvt_def split: prod.splits option.splits)
  show ?thesis
    using f j t start_quiet [of w env rt opts n script]
      Jetstream_start_quiet [of w env rt jopts n jscript]
      Turbostream_start_quiet [of w env topts tscript]
    by simp
qed

theorem handler_failure_isolated_witness:
  "processEvt ex_collab ex_opts (IsAccount (ex_account None)) =
     [HandleEvent (AccountEvent \<lparr> ae_seq = 3, ae_time = ''t3'', ae_did = ''did:plc:alice'',
                                 ae_active = False, ae_status = None \<rparr>),
      OnError (FirehoseHandlerError (Error ''Error'' ''boom'')
                 (AccountEvent \<lparr> ae_seq = 3, ae_time = ''t3'', ae_did = ''did:plc:alice'',
                                 ae_active = False, ae_status = None \<rparr>))] \<and>
   start ex_wire ex_collab ex_rt (quiet ex_opts) 0
     [([Chunk ''account'', Chunk ''account''], Ends)] =
     ([HandleEvent (AccountEvent \<lparr> ae_seq = 3, ae_time = ''t3'', ae_did = ''did:plc:alice'',
                                  ae_active = False, ae_status = None \<rparr>),
       HandleEvent (AccountEvent \<lparr> ae_seq = 3, ae_time = ''t3'', ae_did = ''did:plc:alice'',
                                  ae_active = False, ae_status = None \<rparr>)],
      Returned)"
proof -
  let ?a = "AccountEvent \<lparr> ae_seq = 3, ae_time = ''t3'', ae_did = ''did:plc:alice'',
                            ae_active = False, ae_status = None \<rparr>"
  have p: "parseEvt ex_collab ex_opts (IsAccount (ex_account None)) = ([], [?a])"
    by (simp add: parseEvt_def parseEvt_try_def parseAccount_def truthy_def single_def
        ex_opts_def ex_account_def)
  have h: "handleEvent ex_opts ?a = Some (Error ''Error'' ''boom'')"
    by (simp add: ex_opts_def)
  have r: "runner ex_opts = None" by (simp add: ex_opts_def)
  have v: "validate ex_wire (cloneOf \<lparr> header_t = Some ''#frame'', body = Some ''account'' \<rparr>)
             = ([], Some (IsAccount (ex_account None)))"
    by (simp add: validate_def cloneOf_def ex_wire_def)
  have m: "ensureChunkIsMessage ex_wire ''account''
             = Inr \<lparr> header_t = Some ''#frame'', body = Some ''account'' \<rparr>"
    by (simp add: ex_wire_def)
  note c = handler_failure_isolated [of ex_collab ex_opts "IsAccount (ex_account None)"
      _ _ _ _ ex_wire ex_rt 0 "[([Chunk ''account'', Chunk ''account''], Ends)]"]
  have one: "processEvt ex_collab ex_opts (IsAccount (ex_account None)) =
               [HandleEvent ?a, OnError (FirehoseHandlerError (Error ''Error'' ''boom'') ?a)]"
    using c p h by simp
  have run: "start ex_wire ex_collab ex_rt ex_opts 0
               [([Chunk ''account'', Chunk ''account''], Ends)] =
             ([HandleEvent ?a, OnError (FirehoseHandlerError (Error ''Error'' ''boom'') ?a),
               HandleEvent ?a, OnError (FirehoseHandlerError (Error ''Error'' ''boom'') ?a)],
              Returned)"
    by (simp add: m v start_body_def r one)
  from c have "start ex_wire ex_collab ex_rt (quiet ex_opts) 0
                 [([Chunk ''account'', Chunk ''account''], Ends)] =
               (unreported (fst (start ex_wire ex_collab ex_rt ex_opts 0
                                   [([Chunk ''account'', Chunk ''account''], Ends)])),
                snd (start ex_wire ex_collab ex_rt ex_opts 0
                       [([Chunk ''account'', Chunk ''account''], Ends)]))"
    by blast
  then show ?thesis using one run by simp
qed

section \<open>Properties of account parsing\<close>

lemma parseAccount_unrecognized:
  "status evt = Some str \<Longrightarrow> str \<noteq> [] \<Longrightarrow> \<not> isValidStatus str \<Longrightarrow> parseAccount evt = None"
  by (simp add: parseAccount_def truthy_def)

lemma parseAccount_recognized:
  "status evt = Some str \<Longrightarrow> isValidStatus str \<Longrightarrow>
     parseAccount evt =
       Some \<lparr> ae_seq = acc_seq evt, ae_time = acc_time evt, ae_did = acc_did evt,
              ae_active = active evt, ae_status = Some str \<rparr>"
  by (simp add: parseAccount_def truthy_def)

text \<open>
  C9. An account envelope whose status is present and outside the enumeration is to
  be dropped. The presence test is a truthiness test, so the empty string, which is
  present and outside the enumeration, is let through: the envelope is emitted with
  the empty status. Every other unrecognized status is dropped
  (\<open>parseAccount_unrecognized\<close>).
\<close>

theorem parseAccount_empty_status_emitted:
  "\<not> isValidStatus [] \<and>
   parseAccount (ex_account (Some [])) =
     Some \<lparr> ae_seq = 3, ae_time = ''t3'', ae_did = ''did:plc:alice'',
            ae_active = False, ae_status = Some [] \<rparr>"
  by (simp add: parseAccount_def truthy_def isValidStatus_def ex_account_def)

text \<open>
  C10. An account envelope without a status field is emitted, with no status: the
  enumeration is consulted only for a status that is there.
\<close>

theorem parseAccount_absent_status:
  "parseAccount (evt\<lparr> status := None \<rparr>) =
     Some \<lparr> ae_seq = acc_seq evt, ae_time = acc_time evt, ae_did = acc_did evt,
            ae_active = active evt, ae_status = None \<rparr>"
  by (simp add: parseAccount_def truthy_def)

end
